theory Spec2Isabelle
  imports Complex_Main
begin

section \<open>Values\<close>

text \<open>
  The server of \<^verbatim>\<open>src/index.js\<close> keeps an array \<^verbatim>\<open>pokemons\<close> of objects obtained from
  \<^verbatim>\<open>JSON.parse\<close> and from parsed request bodies. The values inside them are JSON values,
  and the numbers the handlers compute themselves and store (the new ids).

  A number is an integer, one of the two infinities (a JSON numeral such as \<^verbatim>\<open>1e999\<close>
  parses to \<^verbatim>\<open>Infinity\<close>) or \<^verbatim>\<open>NaN\<close>; fractions are not modelled, and \<open>-0\<close> is not told
  from \<open>0\<close>. The numbers of the program are doubles: an integer beyond \<open>2^53\<close> in
  magnitude is a value of the program only if a double holds it. Strings are lists of
  \<^typ>\<open>char\<close>, one \<^typ>\<open>char\<close> for one code unit; Isabelle's \<^typ>\<open>char\<close> has 8 bits, so
  code units above \<open>0xFF\<close> are not modelled. \<^verbatim>\<open>undefined\<close> is \<^term>\<open>None\<close> of an option
  type.
\<close>

datatype number = NaN | Num int | Infinity | MinusInfinity

datatype json =
    JNull
  | JBool bool
  | JNum number
  | JStr string
  | JArr "json list"
  | JObj "(string \<times> json) list"

text \<open>
  The own fields of an object, in the order in which the language lists them: the
  keys that are array indices first, in ascending order, then the other keys in the
  order of their creation. A key occurs once.
\<close>

type_synonym props = "(string \<times> json) list"

text \<open>
  An object of the store has own fields and a prototype. The prototype is
  \<^verbatim>\<open>Object.prototype\<close> for every object that \<^verbatim>\<open>JSON.parse\<close> or the body parser makes; an
  assignment to the key \<^verbatim>\<open>__proto__\<close> can replace it by \<^verbatim>\<open>null\<close> or by an object or array
  taken from a request body. Such a value is itself a parsed one, with the prototype
  \<^verbatim>\<open>Object.prototype\<close> (or \<^verbatim>\<open>Array.prototype\<close>), and nothing changes it afterwards. The
  objects nested inside fields are parsed values as well, and no handler writes to
  them.
\<close>

datatype prototype = ObjectPrototype | NullPrototype | Inherits json

record object =
  own :: props
  proto :: prototype

text \<open>An object as \<^verbatim>\<open>JSON.parse\<close> or the body parser makes it.\<close>

definition plain :: "props \<Rightarrow> object" where
  "plain kvs = \<lparr>own = kvs, proto = ObjectPrototype\<rparr>"

text \<open>A thrown exception; the only one the handlers can raise on these values.\<close>

datatype error = TypeError

section \<open>Built-ins of the language used by the handlers\<close>

subsection \<open>\<^verbatim>\<open>parseInt\<close> with no radix argument\<close>

definition is_white_space :: "char \<Rightarrow> bool" where
  "is_white_space c =
     (c = CHR 0x09 \<or> c = CHR 0x0A \<or> c = CHR 0x0B \<or> c = CHR 0x0C \<or> c = CHR 0x0D
      \<or> c = CHR 0x20 \<or> c = CHR 0xA0)"

definition digit_value :: "char \<Rightarrow> nat option" where
  "digit_value c =
     (let n = (of_char c :: nat)
      in if 48 \<le> n \<and> n \<le> 57 then Some (n - 48)
         else if 97 \<le> n \<and> n \<le> 122 then Some (n - 87)
         else if 65 \<le> n \<and> n \<le> 90 then Some (n - 55)
         else None)"

definition is_radix_digit :: "nat \<Rightarrow> char \<Rightarrow> bool" where
  "is_radix_digit R c = (case digit_value c of Some d \<Rightarrow> d < R | None \<Rightarrow> False)"

definition radix_value :: "nat \<Rightarrow> string \<Rightarrow> int" where
  "radix_value R Z =
     foldl (\<lambda>acc c. acc * int R + (case digit_value c of Some d \<Rightarrow> int d | None \<Rightarrow> 0)) 0 Z"

text \<open>
  \<^verbatim>\<open>parseInt(string)\<close>: leading white space is dropped, then a sign is read, then the
  prefix \<^verbatim>\<open>0x\<close> or \<^verbatim>\<open>0X\<close> selects radix 16 (radix 10 otherwise), then the longest run
  of digits of that radix is the value; no digit at all gives \<^verbatim>\<open>NaN\<close>, which is
  \<^term>\<open>None\<close> here. Whatever follows the digits is ignored.

  The result is the exact value of the digits. The program's \<^verbatim>\<open>parseInt\<close> returns the
  double nearest to it, which is that value as long as its magnitude is at most
  \<open>2^53\<close>; the statements about ids below are made for parameters within this bound.
\<close>

definition parseInt :: "string \<Rightarrow> int option" where
  "parseInt inputString =
     (let S = dropWhile is_white_space inputString;
          sign = (case S of c # _ \<Rightarrow> if c = CHR ''-'' then - 1 else 1 | [] \<Rightarrow> (1::int));
          S1 = (case S of c # r \<Rightarrow> if c = CHR ''+'' \<or> c = CHR ''-'' then r else S | [] \<Rightarrow> S);
          hex = (case S1 of a # b # _ \<Rightarrow> a = CHR ''0'' \<and> (b = CHR ''x'' \<or> b = CHR ''X'')
                 | _ \<Rightarrow> False);
          R = (if hex then 16 else 10);
          S2 = (if hex then drop 2 S1 else S1);
          Z = takeWhile (is_radix_digit R) S2
      in if Z = [] then None else Some (sign * radix_value R Z))"

subsection \<open>Numbers to strings, inside template literals\<close>

definition digit_char :: "nat \<Rightarrow> char" where
  "digit_char d = char_of (48 + d)"

fun show_nat :: "nat \<Rightarrow> string" where
  "show_nat n = (if n < 10 then [digit_char n] else show_nat (n div 10) @ [digit_char (n mod 10)])"

declare show_nat.simps [simp del]

definition show_int :: "int \<Rightarrow> string" where
  "show_int i = (if i < 0 then CHR ''-'' # show_nat (nat (- i)) else show_nat (nat i))"

subsection \<open>\<^verbatim>\<open>Array.prototype.slice(start, end)\<close>\<close>

text \<open>A negative index counts from the end; both indices are clamped to the array.\<close>

definition slice :: "'a list \<Rightarrow> int \<Rightarrow> int \<Rightarrow> 'a list" where
  "slice xs start end' =
     (let len = int (length xs);
          k = (if start < 0 then max (len + start) 0 else min start len);
          final = (if end' < 0 then max (len + end') 0 else min end' len)
      in take (nat (final - k)) (drop (nat k) xs))"

subsection \<open>\<^verbatim>\<open>String.prototype.includes\<close>\<close>

fun is_prefix :: "'a list \<Rightarrow> 'a list \<Rightarrow> bool" where
  "is_prefix [] ys = True"
| "is_prefix (x # xs) [] = False"
| "is_prefix (x # xs) (y # ys) = (x = y \<and> is_prefix xs ys)"

text \<open>\<open>includes_str s t\<close> is \<^verbatim>\<open>s.includes(t)\<close>: \<open>t\<close> occurs in \<open>s\<close> at some position.\<close>

fun includes_str :: "'a list \<Rightarrow> 'a list \<Rightarrow> bool" where
  "includes_str [] t = (t = [])"
| "includes_str (c # s) t = (is_prefix t (c # s) \<or> includes_str s t)"

subsection \<open>Addition of doubles\<close>

text \<open>
  The sum of two doubles is the double nearest to the exact sum, the even one of two
  that are equally near, and an infinity from \<open>2^1024\<close> on. Up to \<open>2^53\<close> in magnitude
  every integer is a double; beyond, a double has 53 significant bits.
\<close>

function bit_length :: "int \<Rightarrow> nat" where
  "bit_length n = (if n \<le> 0 then 0 else Suc (bit_length (n div 2)))"
  by pat_completeness auto
termination
  by (relation "measure nat") auto

declare bit_length.simps [simp del]

definition round_double :: "int \<Rightarrow> number" where
  "round_double i =
     (let a = \<bar>i\<bar>;
          e = bit_length a - 53;
          q = a div 2 ^ e;
          r = a mod 2 ^ e;
          up = (2 * r > 2 ^ e \<or> (2 * r = 2 ^ e \<and> odd q));
          m = (if up then q + 1 else q) * 2 ^ e
      in if m \<ge> 2 ^ 1024 then (if i < 0 then MinusInfinity else Infinity)
         else Num (if i < 0 then - m else m))"

text \<open>\<^verbatim>\<open>n + 1\<close>.\<close>

definition plus_one :: "number \<Rightarrow> number" where
  "plus_one n = (case n of Num i \<Rightarrow> round_double (i + 1) | _ \<Rightarrow> n)"

section \<open>Reading and writing fields\<close>

text \<open>
  \<^verbatim>\<open>p.k\<close> for an object of the store and a name \<open>k\<close> that no built-in prototype
  defines (the handlers read \<open>id\<close> and \<open>name\<close>): the own field, or else the field of
  the object that was made the prototype. An array that was made the prototype has no
  such field.
\<close>

definition get_property :: "object \<Rightarrow> string \<Rightarrow> json option" where
  "get_property p k =
     (case map_of (own p) k of
        Some v \<Rightarrow> Some v
      | None \<Rightarrow> (case proto p of Inherits (JObj kvs) \<Rightarrow> map_of kvs k | _ \<Rightarrow> None))"

text \<open>\<^verbatim>\<open>!v\<close> is \<open>\<not> to_boolean v\<close>.\<close>

definition to_boolean :: "json option \<Rightarrow> bool" where
  "to_boolean v =
     (case v of
        None \<Rightarrow> False
      | Some JNull \<Rightarrow> False
      | Some (JBool b) \<Rightarrow> b
      | Some (JNum NaN) \<Rightarrow> False
      | Some (JNum (Num i)) \<Rightarrow> i \<noteq> 0
      | Some (JNum Infinity) \<Rightarrow> True
      | Some (JNum MinusInfinity) \<Rightarrow> True
      | Some (JStr s) \<Rightarrow> s \<noteq> []
      | Some (JArr _) \<Rightarrow> True
      | Some (JObj _) \<Rightarrow> True)"

text \<open>
  An array index is the decimal numeral, without leading zeros, of a number up to
  \<open>2^32 - 2\<close>.
\<close>

definition array_index :: "string \<Rightarrow> int option" where
  "array_index k =
     (if list_all (is_radix_digit 10) k
         \<and> (case k of [] \<Rightarrow> False | c # r \<Rightarrow> c \<noteq> CHR ''0'' \<or> r = [])
         \<and> radix_value 10 k \<le> 4294967294
      then Some (radix_value 10 k) else None)"

text \<open>An existing field keeps its place.\<close>

fun update_field :: "string \<Rightarrow> json \<Rightarrow> props \<Rightarrow> props" where
  "update_field k v [] = []"
| "update_field k v ((k', v') # kvs) =
     (if k' = k then (k, v) # kvs else (k', v') # update_field k v kvs)"

text \<open>A new array index goes after the smaller indices.\<close>

fun insert_index :: "int \<Rightarrow> string \<Rightarrow> json \<Rightarrow> props \<Rightarrow> props" where
  "insert_index n k v [] = [(k, v)]"
| "insert_index n k v ((k', v') # kvs) =
     (case array_index k' of
        Some n' \<Rightarrow> if n' < n then (k', v') # insert_index n k v kvs else (k, v) # (k', v') # kvs
      | None \<Rightarrow> (k, v) # (k', v') # kvs)"

text \<open>Writing an own data field: any other new key goes to the end.\<close>

definition set_field :: "string \<Rightarrow> json \<Rightarrow> props \<Rightarrow> props" where
  "set_field k v kvs =
     (if map_of kvs k \<noteq> None then update_field k v kvs
      else case array_index k of
             Some n \<Rightarrow> insert_index n k v kvs
           | None \<Rightarrow> kvs @ [(k, v)])"

text \<open>
  \<^verbatim>\<open>a === n\<close> for a field \<open>a\<close> and what \<^verbatim>\<open>parseInt\<close> returned: both numbers, equal, and
  not \<^verbatim>\<open>NaN\<close>.
\<close>

definition strict_equals :: "json option \<Rightarrow> int option \<Rightarrow> bool" where
  "strict_equals a n =
     (case a of
        Some (JNum (Num i)) \<Rightarrow> (case n of Some j \<Rightarrow> i = j | None \<Rightarrow> False)
      | _ \<Rightarrow> False)"

text \<open>\<^verbatim>\<open>Array.prototype.findIndex\<close>, with \<^term>\<open>None\<close> for \<open>-1\<close>.\<close>

fun findIndex :: "('a \<Rightarrow> bool) \<Rightarrow> 'a list \<Rightarrow> nat option" where
  "findIndex f [] = None"
| "findIndex f (x # xs) = (if f x then Some 0 else map_option Suc (findIndex f xs))"

text \<open>The callback \<^verbatim>\<open>p => p.id === parseInt(req.params.id)\<close>.\<close>

definition has_id :: "string \<Rightarrow> object \<Rightarrow> bool" where
  "has_id id_param p = strict_equals (get_property p ''id'') (parseInt id_param)"

definition not_found_message :: string where
  "not_found_message = ''Pok'' @ [CHR 0xE9] @ ''mon non trouv'' @ [CHR 0xE9]"

section \<open>The query parameter\<close>

text \<open>
  \<^verbatim>\<open>req.query.page\<close> is absent, a string, or (for a repeated or bracketed parameter) an
  array or an object of such values. \<^verbatim>\<open>parseInt\<close> first converts its argument to a
  string: an array is the comma-separated join of its elements, a plain object is
  \<^verbatim>\<open>[object Object]\<close>, and \<^verbatim>\<open>undefined\<close> is \<^verbatim>\<open>undefined\<close>.
\<close>

datatype qvalue = QStr string | QArr "qvalue list" | QObj "(string \<times> qvalue) list"

fun join_comma :: "string list \<Rightarrow> string" where
  "join_comma [] = []"
| "join_comma [s] = s"
| "join_comma (s # t # ts) = s @ '','' @ join_comma (t # ts)"

fun to_string :: "qvalue \<Rightarrow> string" where
  "to_string (QStr s) = s"
| "to_string (QArr vs) = join_comma (map to_string vs)"
| "to_string (QObj kvs) = ''[object Object]''"

definition parse_query :: "qvalue option \<Rightarrow> int option" where
  "parse_query q = (case q of None \<Rightarrow> parseInt ''undefined'' | Some v \<Rightarrow> parseInt (to_string v))"

text \<open>\<^verbatim>\<open>n || 1\<close> on what \<^verbatim>\<open>parseInt\<close> returns: \<^verbatim>\<open>NaN\<close> and zero are falsy.\<close>

definition or_one :: "int option \<Rightarrow> int" where
  "or_one n = (case n of None \<Rightarrow> 1 | Some i \<Rightarrow> if i = 0 then 1 else i)"

section \<open>Responses\<close>

record pagination =
  currentPage :: int
  totalPages :: int
  totalPokemons :: nat
  itemsPerPage :: int
  hasNextPage :: bool
  hasPreviousPage :: bool

text \<open>
  The shapes of the objects handed to \<^verbatim>\<open>res.json\<close>:
  \<^verbatim>\<open>{message}\<close>, \<^verbatim>\<open>{data, pagination}\<close>, \<^verbatim>\<open>{message, results}\<close>, a record itself, and
  \<^verbatim>\<open>{message, pokemon}\<close>. A response holds the objects that were handed over; what
  \<^verbatim>\<open>res.json\<close> sends of them is their own fields.
\<close>

datatype body =
    Message string
  | Listing "object list" pagination
  | SearchResults string "object list"
  | Record object
  | Deleted string object

record response =
  status :: nat
  body :: body

section \<open>GET /api/pokemons\<close>

definition page_missing_message :: "int \<Rightarrow> int \<Rightarrow> string" where
  "page_missing_message page pages =
     ''La page '' @ show_int page @ '' n'' @ [CHR 0x27] @ ''existe pas. Nombre total de pages: ''
       @ show_int pages"

text \<open>Lines 35 to 59: the handler once \<^verbatim>\<open>page\<close> is known.\<close>

definition list_page :: "object list \<Rightarrow> int \<Rightarrow> response" where
  "list_page pokemons page =
     (let limit = 20;
          startIndex = (page - 1) * limit;
          endIndex = startIndex + limit;
          totalPokemons = length pokemons;
          totalPages = \<lceil>real totalPokemons / real_of_int limit\<rceil>;
          paginatedPokemons = slice pokemons startIndex endIndex
      in if page > totalPages \<and> totalPages > 0
         then \<lparr>status = 400, body = Message (page_missing_message page totalPages)\<rparr>
         else \<lparr>status = 200,
               body = Listing paginatedPokemons
                 \<lparr>currentPage = page, totalPages = totalPages, totalPokemons = totalPokemons,
                  itemsPerPage = limit, hasNextPage = page < totalPages,
                  hasPreviousPage = page > 1\<rparr>\<rparr>)"

definition get_pokemons :: "object list \<Rightarrow> qvalue option \<Rightarrow> response" where
  "get_pokemons pokemons query_page = list_page pokemons (or_one (parse_query query_page))"

section \<open>GET /api/pokemons/search/:name\<close>

text \<open>
  \<^verbatim>\<open>String.prototype.toLowerCase\<close> is a parameter of the model: the Unicode case
  mapping is the language's, not the repository's, and nothing below depends on what
  it computes. \<open>toLowerCase_latin1\<close> is that mapping on the code units this model has
  (up to \<open>0xFF\<close>: the letters \<open>A\<close> to \<open>Z\<close> and \<open>0xC0\<close> to \<open>0xDE\<close> without \<open>0xD7\<close> move up
  by \<open>0x20\<close>), for the concrete evaluations.
\<close>

definition lower_latin1 :: "char \<Rightarrow> char" where
  "lower_latin1 c =
     (let n = (of_char c :: nat)
      in if (65 \<le> n \<and> n \<le> 90) \<or> (192 \<le> n \<and> n \<le> 222 \<and> n \<noteq> 215) then char_of (n + 32)
         else c)"

definition toLowerCase_latin1 :: "string \<Rightarrow> string" where
  "toLowerCase_latin1 s = map lower_latin1 s"

text \<open>
  \<^verbatim>\<open>v.k.toLowerCase()\<close> where \<open>v\<close> is what \<^verbatim>\<open>p.name\<close> gave. Reading a property of
  \<^verbatim>\<open>undefined\<close> or \<^verbatim>\<open>null\<close> throws; any other value that is not an object has no
  such property, and calling \<^verbatim>\<open>toLowerCase\<close> on \<^verbatim>\<open>undefined\<close> or on a value that is
  not a string throws as well.
\<close>

definition lowered_field :: "(string \<Rightarrow> string) \<Rightarrow> json option \<Rightarrow> string \<Rightarrow> error + string" where
  "lowered_field toLowerCase v k =
     (case v of
        Some (JObj kvs) \<Rightarrow>
          (case map_of kvs k of Some (JStr s) \<Rightarrow> Inr (toLowerCase s) | _ \<Rightarrow> Inl TypeError)
      | _ \<Rightarrow> Inl TypeError)"

definition language_includes ::
  "(string \<Rightarrow> string) \<Rightarrow> string \<Rightarrow> object \<Rightarrow> string \<Rightarrow> error + bool" where
  "language_includes toLowerCase searchName p k =
     (case lowered_field toLowerCase (get_property p ''name'') k of
        Inl e \<Rightarrow> Inl e
      | Inr s \<Rightarrow> Inr (includes_str s searchName))"

text \<open>\<^verbatim>\<open>a || b\<close> on booleans: \<open>b\<close> is evaluated only when \<open>a\<close> is false.\<close>

definition or_else :: "error + bool \<Rightarrow> error + bool \<Rightarrow> error + bool" where
  "or_else a b = (case a of Inl e \<Rightarrow> Inl e | Inr t \<Rightarrow> if t then Inr True else b)"

text \<open>The callback of \<^verbatim>\<open>filter\<close>, lines 67 to 70.\<close>

definition name_includes :: "(string \<Rightarrow> string) \<Rightarrow> string \<Rightarrow> object \<Rightarrow> error + bool" where
  "name_includes toLowerCase searchName p =
     or_else (or_else (or_else
       (language_includes toLowerCase searchName p ''english'')
       (language_includes toLowerCase searchName p ''french''))
       (language_includes toLowerCase searchName p ''japanese''))
       (language_includes toLowerCase searchName p ''chinese'')"

text \<open>\<^verbatim>\<open>Array.prototype.filter\<close> with a callback that may throw.\<close>

fun filter_arr :: "('a \<Rightarrow> error + bool) \<Rightarrow> 'a list \<Rightarrow> error + 'a list" where
  "filter_arr f [] = Inr []"
| "filter_arr f (x # xs) =
     (case f x of
        Inl e \<Rightarrow> Inl e
      | Inr t \<Rightarrow>
          (case filter_arr f xs of
             Inl e \<Rightarrow> Inl e
           | Inr ys \<Rightarrow> Inr (if t then x # ys else ys)))"

definition none_found_message :: "string \<Rightarrow> string" where
  "none_found_message name =
     ''Aucun Pok'' @ [CHR 0xE9] @ ''mon trouv'' @ [CHR 0xE9] @ '' avec le nom: '' @ name"

definition found_message :: "nat \<Rightarrow> string" where
  "found_message n = show_nat n @ '' Pok'' @ [CHR 0xE9] @ ''mon(s) trouv'' @ [CHR 0xE9] @ ''(s)''"

definition get_pokemons_search ::
  "(string \<Rightarrow> string) \<Rightarrow> object list \<Rightarrow> string \<Rightarrow> error + response" where
  "get_pokemons_search toLowerCase pokemons name =
     (let searchName = toLowerCase name
      in case filter_arr (name_includes toLowerCase searchName) pokemons of
           Inl e \<Rightarrow> Inl e
         | Inr results \<Rightarrow>
             if length results = 0
             then Inr \<lparr>status = 404, body = SearchResults (none_found_message name) []\<rparr>
             else Inr \<lparr>status = 200, body = SearchResults (found_message (length results)) results\<rparr>)"

section \<open>The store and its file\<close>

text \<open>
  The file is modelled by the JSON value its text denotes, not by the text: what
  \<^verbatim>\<open>JSON.parse\<close> gives back from the output of \<^verbatim>\<open>JSON.stringify\<close>. The indentation is
  therefore not modelled. \<^verbatim>\<open>JSON.stringify\<close> writes \<^verbatim>\<open>null\<close> for \<^verbatim>\<open>NaN\<close> and for the
  infinities, and every other value of the model as itself; of an object it writes
  the own fields and nothing of the prototype.
\<close>

fun stringify :: "json \<Rightarrow> json" where
  "stringify (JNum (Num i)) = JNum (Num i)"
| "stringify (JNum n) = JNull"
| "stringify (JArr vs) = JArr (map stringify vs)"
| "stringify (JObj kvs) = JObj (map (\<lambda>(k, v). (k, stringify v)) kvs)"
| "stringify v = v"

record server =
  pokemons :: "object list"
  data_file :: json

definition writeFileSync :: "object list \<Rightarrow> server" where
  "writeFileSync ps =
     \<lparr>pokemons = ps, data_file = stringify (JArr (map (\<lambda>p. JObj (own p)) ps))\<rparr>"

section \<open>POST /api/pokemons\<close>

text \<open>
  \<^verbatim>\<open>Math.max\<close> converts each argument to a number. \<^verbatim>\<open>undefined\<close> becomes \<^verbatim>\<open>NaN\<close>,
  \<^verbatim>\<open>null\<close> and \<^verbatim>\<open>false\<close> become 0, \<^verbatim>\<open>true\<close> becomes 1. The conversion of a string, an
  array or an object goes through the grammar of numeric literals and through
  \<^verbatim>\<open>ToPrimitive\<close>, and can throw; it is the parameter \<open>coerce\<close>.
\<close>

definition to_number :: "(json \<Rightarrow> error + number) \<Rightarrow> json option \<Rightarrow> error + number" where
  "to_number coerce v =
     (case v of
        None \<Rightarrow> Inr NaN
      | Some JNull \<Rightarrow> Inr (Num 0)
      | Some (JBool b) \<Rightarrow> Inr (Num (if b then 1 else 0))
      | Some (JNum n) \<Rightarrow> Inr n
      | Some w \<Rightarrow> coerce w)"

fun to_numbers :: "(json \<Rightarrow> error + number) \<Rightarrow> json option list \<Rightarrow> error + number list" where
  "to_numbers coerce [] = Inr []"
| "to_numbers coerce (v # vs) =
     (case to_number coerce v of
        Inl e \<Rightarrow> Inl e
      | Inr n \<Rightarrow> (case to_numbers coerce vs of Inl e \<Rightarrow> Inl e | Inr ns \<Rightarrow> Inr (n # ns)))"

text \<open>The greater of two numbers; \<^verbatim>\<open>NaN\<close> if one of them is.\<close>

fun max_number :: "number \<Rightarrow> number \<Rightarrow> number" where
  "max_number NaN b = NaN"
| "max_number a NaN = NaN"
| "max_number Infinity b = Infinity"
| "max_number a Infinity = Infinity"
| "max_number MinusInfinity b = b"
| "max_number a MinusInfinity = a"
| "max_number (Num a) (Num b) = Num (max a b)"

text \<open>\<^verbatim>\<open>Math.max\<close> of at least one number.\<close>

definition math_max :: "number \<Rightarrow> number list \<Rightarrow> number" where
  "math_max n ns = foldl max_number n ns"

text \<open>
  Line 105. The array is not empty where \<^verbatim>\<open>Math.max\<close> is called, so the ids are
  converted from the first record on.
\<close>

definition new_id :: "(json \<Rightarrow> error + number) \<Rightarrow> object list \<Rightarrow> error + number" where
  "new_id coerce ps =
     (case ps of
        [] \<Rightarrow> Inr (Num 1)
      | p # ps' \<Rightarrow>
          (case to_number coerce (get_property p ''id'') of
             Inl e \<Rightarrow> Inl e
           | Inr n \<Rightarrow>
               (case to_numbers coerce (map (\<lambda>p. get_property p ''id'') ps') of
                  Inl e \<Rightarrow> Inl e
                | Inr ns \<Rightarrow> Inr (plus_one (math_max n ns)))))"

definition invalid_message :: string where
  "invalid_message = ''Donn'' @ [CHR 0xE9] @ ''es invalides''"

text \<open>
  \<^verbatim>\<open>req.body\<close> is the parsed JSON body, an object with the prototype
  \<^verbatim>\<open>Object.prototype\<close>. Reading \<^verbatim>\<open>newPokemon.name\<close> throws on \<^verbatim>\<open>null\<close> (as it does when no
  body was parsed and \<^verbatim>\<open>req.body\<close> is \<^verbatim>\<open>undefined\<close>); an array or a primitive has none
  of the three properties. The body itself, with its new id, becomes the record.
\<close>

definition post_pokemons ::
  "(json \<Rightarrow> error + number) \<Rightarrow> server \<Rightarrow> json \<Rightarrow> (error + response) \<times> server" where
  "post_pokemons coerce st newPokemon =
     (case newPokemon of
        JNull \<Rightarrow> (Inl TypeError, st)
      | JObj props \<Rightarrow>
          if \<not> to_boolean (map_of props ''name'') \<or> \<not> to_boolean (map_of props ''type'')
             \<or> \<not> to_boolean (map_of props ''base'')
          then (Inr \<lparr>status = 400, body = Message invalid_message\<rparr>, st)
          else (case new_id coerce (pokemons st) of
                  Inl e \<Rightarrow> (Inl e, st)
                | Inr newId \<Rightarrow>
                    (let created = plain (set_field ''id'' (JNum newId) props)
                     in (Inr \<lparr>status = 201, body = Record created\<rparr>,
                         writeFileSync (pokemons st @ [created]))))
      | _ \<Rightarrow> (Inr \<lparr>status = 400, body = Message invalid_message\<rparr>, st))"

section \<open>PUT /api/pokemons/:id\<close>

text \<open>
  \<^verbatim>\<open>Object.assign(target, source)\<close> assigns each own field of the source to the target.
  The own fields of an array are its elements under their indices, those of a string
  its characters; \<^verbatim>\<open>null\<close> (and an absent body) and the other primitives have none.
\<close>

definition own_entries :: "json \<Rightarrow> (string \<times> json) list" where
  "own_entries source =
     (case source of
        JObj kvs \<Rightarrow> kvs
      | JArr vs \<Rightarrow> zip (map show_nat [0 ..< length vs]) vs
      | JStr s \<Rightarrow> zip (map show_nat [0 ..< length s]) (map (\<lambda>c. JStr [c]) s)
      | _ \<Rightarrow> [])"

text \<open>
  The assignment \<^verbatim>\<open>target[k] = v\<close> writes the own field \<open>k\<close> where the target has one.
  Otherwise it looks along the prototypes. The only property there that is not a
  plain writable one is the accessor \<^verbatim>\<open>__proto__\<close> of \<^verbatim>\<open>Object.prototype\<close>; it is met
  unless the prototype is \<^verbatim>\<open>null\<close> or is a parsed object with an own field
  \<^verbatim>\<open>__proto__\<close>. The accessor makes an object, an array or \<^verbatim>\<open>null\<close> the new prototype
  of the target and ignores every other value; it creates no field. In every other
  case the assignment creates the own field.
\<close>

definition reaches_setter :: "prototype \<Rightarrow> bool" where
  "reaches_setter pr =
     (case pr of
        ObjectPrototype \<Rightarrow> True
      | NullPrototype \<Rightarrow> False
      | Inherits (JObj kvs) \<Rightarrow> map_of kvs ''__proto__'' = None
      | Inherits _ \<Rightarrow> True)"

definition set_prototype :: "prototype \<Rightarrow> json \<Rightarrow> prototype" where
  "set_prototype pr v =
     (case v of
        JObj _ \<Rightarrow> Inherits v
      | JArr _ \<Rightarrow> Inherits v
      | JNull \<Rightarrow> NullPrototype
      | _ \<Rightarrow> pr)"

definition assign_field :: "object \<Rightarrow> string \<times> json \<Rightarrow> object" where
  "assign_field target kv =
     (if fst kv = ''__proto__'' \<and> map_of (own target) ''__proto__'' = None
         \<and> reaches_setter (proto target)
      then target\<lparr>proto := set_prototype (proto target) (snd kv)\<rparr>
      else target\<lparr>own := set_field (fst kv) (snd kv) (own target)\<rparr>)"

definition object_assign :: "object \<Rightarrow> json \<Rightarrow> object" where
  "object_assign target source = foldl assign_field target (own_entries source)"

text \<open>
  \<^verbatim>\<open>find\<close> returns the first matching element itself, and \<^verbatim>\<open>Object.assign\<close> changes it
  in place: the array holds the merged object at the same index.
\<close>

definition put_pokemons :: "server \<Rightarrow> string \<Rightarrow> json \<Rightarrow> response \<times> server" where
  "put_pokemons st id_param patch =
     (case findIndex (has_id id_param) (pokemons st) of
        None \<Rightarrow> (\<lparr>status = 404, body = Message not_found_message\<rparr>, st)
      | Some i \<Rightarrow>
          (let pokemon = object_assign (pokemons st ! i) patch
           in (\<lparr>status = 200, body = Record pokemon\<rparr>,
               writeFileSync ((pokemons st)[i := pokemon]))))"

section \<open>DELETE /api/pokemons/:id\<close>

definition deleted_message :: string where
  "deleted_message = ''Pok'' @ [CHR 0xE9] @ ''mon supprim'' @ [CHR 0xE9]"

definition delete_pokemons :: "server \<Rightarrow> string \<Rightarrow> response \<times> server" where
  "delete_pokemons st id_param =
     (case findIndex (has_id id_param) (pokemons st) of
        None \<Rightarrow> (\<lparr>status = 404, body = Message not_found_message\<rparr>, st)
      | Some index \<Rightarrow>
          (let deletedPokemon = pokemons st ! index
           in (\<lparr>status = 200, body = Deleted deleted_message deletedPokemon\<rparr>,
               writeFileSync (take index (pokemons st) @ drop (Suc index) (pokemons st)))))"

section \<open>Sample values\<close>

text \<open>A store of \<open>b - a + 1\<close> records that carry the ids \<open>a\<close> to \<open>b\<close> and nothing else.\<close>

definition records_with_ids :: "int \<Rightarrow> int \<Rightarrow> object list" where
  "records_with_ids a b = map (\<lambda>i. plain [(''id'', JNum (Num i))]) [a..b]"

text \<open>Two records of the shape the specification gives, and variants of them.\<close>

definition bulbasaur :: object where
  "bulbasaur =
     plain
       [(''id'', JNum (Num 1)),
        (''name'', JObj [(''english'', JStr ''Bulbasaur''), (''japanese'', JStr ''Fushigidane''),
                         (''chinese'', JStr ''Miaowazhongzi''), (''french'', JStr ''Bulbizarre'')]),
        (''type'', JArr [JStr ''Grass'', JStr ''Poison'']),
        (''base'', JObj [(''HP'', JNum (Num 45)), (''Attack'', JNum (Num 49))])]"

definition pikachu :: object where
  "pikachu =
     plain
       [(''id'', JNum (Num 25)),
        (''name'', JObj [(''english'', JStr ''Pikachu''), (''japanese'', JStr ''Pikachuu''),
                         (''chinese'', JStr ''Pikaqiu''), (''french'', JStr ''Pikachu'')]),
        (''type'', JArr [JStr ''Electric'']),
        (''base'', JObj [(''HP'', JNum (Num 35)), (''Attack'', JNum (Num 55))])]"

text \<open>A record whose name has a fifth language.\<close>

definition bisasam :: object where
  "bisasam =
     plain
       [(''id'', JNum (Num 1)),
        (''name'', JObj [(''english'', JStr ''Bulbasaur''), (''japanese'', JStr ''Fushigidane''),
                         (''chinese'', JStr ''Miaowazhongzi''), (''french'', JStr ''Bulbizarre''),
                         (''german'', JStr ''Bisasam'')]),
        (''type'', JArr [JStr ''Grass'', JStr ''Poison'']),
        (''base'', JObj [(''HP'', JNum (Num 45)), (''Attack'', JNum (Num 49))])]"

text \<open>A record whose name has the English value only.\<close>

definition squirtle :: object where
  "squirtle =
     plain
       [(''id'', JNum (Num 7)),
        (''name'', JObj [(''english'', JStr ''Squirtle'')]),
        (''type'', JArr [JStr ''Water'']),
        (''base'', JObj [(''HP'', JNum (Num 44))])]"

text \<open>A record of the data file that has an id and nothing else.\<close>

definition nameless :: object where
  "nameless = plain [(''id'', JNum (Num 3))]"

text \<open>A request body whose name is an object without any language.\<close>

definition missingno :: props where
  "missingno =
     [(''name'', JObj []), (''type'', JArr [JStr ''Normal'']),
      (''base'', JObj [(''HP'', JNum (Num 33))])]"

text \<open>
  The concrete evaluations below run on stores whose ids are numbers, where the
  parameter \<open>coerce\<close> is never consulted; they are given one that throws, so that a
  result other than \<^term>\<open>Inl TypeError\<close> shows that it was not.
\<close>

definition no_coercion :: "json \<Rightarrow> error + number" where
  "no_coercion v = Inl TypeError"

text \<open>Request bodies: a complete one, one with an empty name, one with \<open>base\<close> zero.\<close>

definition eevee :: props where
  "eevee =
     [(''name'', JObj [(''english'', JStr ''Eevee''), (''japanese'', JStr ''Iibui''),
                       (''chinese'', JStr ''Yibu''), (''french'', JStr ''Evoli'')]),
      (''type'', JArr [JStr ''Normal'']),
      (''base'', JObj [(''HP'', JNum (Num 55)), (''Attack'', JNum (Num 55))])]"

definition empty_name :: props where
  "empty_name =
     [(''name'', JStr []),
      (''type'', JArr [JStr ''Normal'']),
      (''base'', JObj [(''HP'', JNum (Num 55))])]"

definition zero_base :: props where
  "zero_base =
     [(''name'', JObj [(''english'', JStr ''Eevee''), (''japanese'', JStr ''Iibui''),
                       (''chinese'', JStr ''Yibu''), (''french'', JStr ''Evoli'')]),
      (''type'', JArr [JStr ''Normal'']),
      (''base'', JNum (Num 0))]"

text \<open>A request body without \<open>type\<close>.\<close>

definition typeless :: props where
  "typeless =
     [(''name'', JObj [(''english'', JStr ''Eevee''), (''japanese'', JStr ''Iibui''),
                       (''chinese'', JStr ''Yibu''), (''french'', JStr ''Evoli'')]),
      (''base'', JObj [(''HP'', JNum (Num 55)), (''Attack'', JNum (Num 55))])]"

text \<open>A patch that changes the id, replaces \<open>base\<close> and adds a field.\<close>

definition sparky :: props where
  "sparky =
     [(''id'', JNum (Num 26)), (''base'', JObj [(''HP'', JNum (Num 40))]),
      (''nickname'', JStr ''Sparky'')]"

text \<open>The record \<open>pikachu\<close> after that patch.\<close>

definition pikachu_sparky :: object where
  "pikachu_sparky =
     plain
       [(''id'', JNum (Num 26)),
        (''name'', JObj [(''english'', JStr ''Pikachu''), (''japanese'', JStr ''Pikachuu''),
                         (''chinese'', JStr ''Pikaqiu''), (''french'', JStr ''Pikachu'')]),
        (''type'', JArr [JStr ''Electric'']),
        (''base'', JObj [(''HP'', JNum (Num 40))]),
        (''nickname'', JStr ''Sparky'')]"

text \<open>A patch that offers an object with a name as the prototype.\<close>

definition lend_name :: props where
  "lend_name =
     [(''__proto__'',
       JObj [(''name'', JObj [(''english'', JStr ''Ditto''), (''japanese'', JStr ''Metamon''),
                              (''chinese'', JStr ''Baibianguai''), (''french'', JStr ''Metamorph'')])])]"

text \<open>
  The string \<^verbatim>\<open>abc\<close> is no numeric literal, so its conversion to a number is \<^verbatim>\<open>NaN\<close>. This
  instance of the parameter \<open>coerce\<close> knows that one value and throws on every other.
\<close>

definition coerce_abc :: "json \<Rightarrow> error + number" where
  "coerce_abc v = (if v = JStr ''abc'' then Inr NaN else Inl TypeError)"

text \<open>A request body whose text has the numeral \<^verbatim>\<open>1e999\<close>, which parses to \<^verbatim>\<open>Infinity\<close>.\<close>

definition overflowing :: props where
  "overflowing =
     [(''name'', JObj [(''english'', JStr ''Eevee''), (''japanese'', JStr ''Iibui''),
                       (''chinese'', JStr ''Yibu''), (''french'', JStr ''Evoli'')]),
      (''type'', JArr [JStr ''Normal'']),
      (''base'', JObj [(''HP'', JNum Infinity)])]"

section \<open>Notions used in the statements\<close>

text \<open>The four language fields, in the order in which line 67 to 70 read them.\<close>

definition languages :: "string list" where
  "languages = [''english'', ''french'', ''japanese'', ''chinese'']"

text \<open>
  The string a record holds for a language, if what \<^verbatim>\<open>p.name\<close> gives is an object that
  holds one.
\<close>

definition language_value :: "object \<Rightarrow> string \<Rightarrow> string option" where
  "language_value p l =
     (case get_property p ''name'' of
        Some (JObj kvs) \<Rightarrow> (case map_of kvs l of Some (JStr s) \<Rightarrow> Some s | _ \<Rightarrow> None)
      | _ \<Rightarrow> None)"

definition well_named :: "object \<Rightarrow> bool" where
  "well_named p = list_all (\<lambda>l. language_value p l \<noteq> None) languages"

text \<open>One of the four language values contains the query, both in lower case.\<close>

definition matches_query :: "(string \<Rightarrow> string) \<Rightarrow> string \<Rightarrow> object \<Rightarrow> bool" where
  "matches_query toLowerCase q p =
     list_ex (\<lambda>l. case language_value p l of
                    Some s \<Rightarrow> includes_str (toLowerCase s) (toLowerCase q)
                  | None \<Rightarrow> False) languages"

text \<open>
  Reading the given languages of a record in order meets one without a string value
  before one whose value contains the lowered query.
\<close>

fun gap_first :: "(string \<Rightarrow> string) \<Rightarrow> string \<Rightarrow> object \<Rightarrow> string list \<Rightarrow> bool" where
  "gap_first toLowerCase searchName p [] = False"
| "gap_first toLowerCase searchName p (l # ls) =
     (case language_value p l of
        None \<Rightarrow> True
      | Some s \<Rightarrow> \<not> includes_str (toLowerCase s) searchName \<and> gap_first toLowerCase searchName p ls)"

text \<open>
  An id parameter that \<^verbatim>\<open>parseInt\<close> reads exactly: no number at all, or one of
  magnitude at most \<open>2^53\<close>.
\<close>

definition exact_id_param :: "string \<Rightarrow> bool" where
  "exact_id_param id_param =
     (case parseInt id_param of None \<Rightarrow> True | Some n \<Rightarrow> \<bar>n\<bar> \<le> 2 ^ 53)"

text \<open>A value in which every number is finite, as JSON text can hold it.\<close>

fun finite_json :: "json \<Rightarrow> bool" where
  "finite_json (JNum (Num i)) = True"
| "finite_json (JNum n) = False"
| "finite_json (JArr vs) = list_all finite_json vs"
| "finite_json (JObj kvs) = list_all (\<lambda>kv. finite_json (snd kv)) kvs"
| "finite_json v = True"

text \<open>
  A store that a file can hold: every number in the own fields is finite, and every
  record has the prototype that parsing gives.
\<close>

definition storable :: "object list \<Rightarrow> bool" where
  "storable ps =
     list_all (\<lambda>p. finite_json (JObj (own p)) \<and> proto p = ObjectPrototype) ps"

text \<open>
  The file, parsed again, is the store: it holds the own fields of the records, in
  order, and parsing gives each record the prototype it has.
\<close>

definition persisted :: "server \<Rightarrow> bool" where
  "persisted st =
     (data_file st = JArr (map (\<lambda>p. JObj (own p)) (pokemons st))
      \<and> list_all (\<lambda>p. proto p = ObjectPrototype) (pokemons st))"

text \<open>A patch that is not an object with the key \<^verbatim>\<open>__proto__\<close>.\<close>

definition no_proto_key :: "json \<Rightarrow> bool" where
  "no_proto_key patch = (case patch of JObj kvs \<Rightarrow> map_of kvs ''__proto__'' = None | _ \<Rightarrow> True)"

section \<open>Facts about the built-ins\<close>

lemma ceil_pages_nonneg: "0 \<le> \<lceil>real n / 20\<rceil>"
proof -
  have "(0::real) \<le> real n / 20" by simp
  also have "\<dots> \<le> of_int \<lceil>real n / 20\<rceil>" by (rule le_of_int_ceiling)
  finally show ?thesis by simp
qed



lemma of_char_digit_char: "d < 10 \<Longrightarrow> (of_char (digit_char d) :: nat) = 48 + d"
  by (simp add: digit_char_def)


lemma show_nat_digits: "\<forall>c \<in> set (show_nat n). \<exists>d < 10. c = digit_char d"
proof (induction n rule: show_nat.induct)
  case (1 n)
  show ?case
  proof (cases "n < 10")
    case True
    then show ?thesis by (subst show_nat.simps) auto
  next
    case False
    with 1 show ?thesis by (subst show_nat.simps) (auto intro: exI[of _ "n mod 10"])
  qed
qed






text \<open>Within \<open>2^53\<close> the sum is exact.\<close>

lemma bit_length_le: "a < 2 ^ k \<Longrightarrow> bit_length a \<le> k"
proof (induction k arbitrary: a)
  case 0
  then show ?case by (subst bit_length.simps) simp
next
  case (Suc k)
  show ?case
  proof (cases "a \<le> 0")
    case True
    then show ?thesis by (subst bit_length.simps) simp
  next
    case False
    from Suc.prems have "a div 2 < 2 ^ k" by simp
    then have "bit_length (a div 2) \<le> k" by (rule Suc.IH)
    with False show ?thesis by (subst bit_length.simps) simp
  qed
qed

lemma round_double_small: "\<bar>i\<bar> < 2 ^ 53 \<Longrightarrow> round_double i = Num i"
proof -
  assume a: "\<bar>i\<bar> < 2 ^ 53"
  then have "bit_length \<bar>i\<bar> - 53 = 0" using bit_length_le[of "\<bar>i\<bar>" 53] by simp
  moreover have "\<bar>i\<bar> < 2 ^ 1024"
    using a less_trans[of "\<bar>i\<bar>" "2 ^ 53" "2 ^ 1024"] by simp
  ultimately show ?thesis
    unfolding round_double_def Let_def by (auto simp: not_le)
qed

lemma round_double_exact: "\<bar>i\<bar> \<le> 2 ^ 53 \<Longrightarrow> round_double i = Num i"
proof (cases "\<bar>i\<bar> < 2 ^ 53")
  case True
  then show ?thesis by (rule round_double_small)
next
  case False
  assume "\<bar>i\<bar> \<le> 2 ^ 53"
  with False have "i = 2 ^ 53 \<or> i = - (2 ^ 53)" by linarith
  moreover have "round_double (2 ^ 53) = Num (2 ^ 53)" by code_simp
  moreover have "round_double (- (2 ^ 53)) = Num (- (2 ^ 53))" by code_simp
  ultimately show ?thesis by auto
qed

text \<open>At \<open>2^53\<close> it is not: the odd number after it is no double.\<close>

lemma plus_one_rounds: "plus_one (Num (2 ^ 53)) = Num (2 ^ 53)"
  by code_simp

section \<open>Listing\<close>




lemma parseInt_one: "parseInt ''1'' = Some 1"
  by (simp add: parseInt_def is_white_space_def is_radix_digit_def digit_value_def
      radix_value_def)

lemma parse_query_abc: "parse_query (Some (QStr ''abc'')) = None"
  by (simp add: parse_query_def parseInt_def is_white_space_def is_radix_digit_def
      digit_value_def)

lemma parse_query_minus_one: "parse_query (Some (QStr ''-1'')) = Some (- 1)"
  by (simp add: parse_query_def parseInt_def is_white_space_def is_radix_digit_def
      digit_value_def radix_value_def)

lemma parse_query_absent: "parse_query None = None"
  by (simp add: parse_query_def parseInt_def is_white_space_def is_radix_digit_def
      digit_value_def)



text \<open>
  Claim C6 as stated fails for a negative page: \<^verbatim>\<open>parseInt("-1")\<close> is \<open>-1\<close>, which is
  truthy, so \<^verbatim>\<open>|| 1\<close> leaves it alone. On a store of one record, page \<open>-1\<close> is not
  answered as page 1 is.
\<close>

theorem negative_page_counterexample:
  "get_pokemons (records_with_ids 1 1) (Some (QStr ''-1'')) \<noteq>
   get_pokemons (records_with_ids 1 1) (Some (QStr ''1''))"
proof -
  have "or_one (parse_query (Some (QStr ''-1''))) = - 1"
    by (simp add: parse_query_minus_one or_one_def)
  moreover have "or_one (parse_query (Some (QStr ''1''))) = 1"
    by (simp add: parse_query_def parseInt_one or_one_def)
  ultimately show ?thesis
    by (simp add: get_pokemons_def list_page_def Let_def)
qed

text \<open>
  Claim C6, amended. An absent page parameter is read as \<^verbatim>\<open>NaN\<close>. A parameter that is
  absent, that does not parse to a number (no leading digits) or that parses to zero
  is answered exactly as page 1 is. A parameter that parses to a negative number \<open>n\<close>
  is not rejected either, but it is not coerced: the answer is 200, with a next page
  and no previous one, and, for \<open>n\<close> down to \<open>-2^53\<close>, with \<open>currentPage = n\<close> and the
  slice taken at the negative indices \<open>(n - 1) * 20\<close> and \<open>(n - 1) * 20 + 20\<close>, counted
  from the end.
\<close>

theorem page_zero_or_unreadable_is_page_one:
  "parse_query None = None
   \<and> get_pokemons ps None = get_pokemons ps (Some (QStr ''1''))
   \<and> (parse_query q = None \<or> parse_query q = Some 0 \<longrightarrow>
      get_pokemons ps q = get_pokemons ps (Some (QStr ''1'')))
   \<and> (parse_query q = Some n \<and> n < 0 \<longrightarrow>
      status (get_pokemons ps q) = 200
      \<and> (\<exists>d pg. body (get_pokemons ps q) = Listing d pg
             \<and> hasNextPage pg \<and> \<not> hasPreviousPage pg))
   \<and> (parse_query q = Some n \<and> n < 0 \<and> - (2 ^ 53) \<le> n \<longrightarrow>
      get_pokemons ps q =
        \<lparr>status = 200,
         body = Listing (slice ps ((n - 1) * 20) ((n - 1) * 20 + 20))
           \<lparr>currentPage = n, totalPages = \<lceil>real (length ps) / 20\<rceil>,
            totalPokemons = length ps, itemsPerPage = 20,
            hasNextPage = True, hasPreviousPage = False\<rparr>\<rparr>)"
proof -
  have one: "or_one (parse_query (Some (QStr ''1''))) = 1"
    by (simp add: parse_query_def parseInt_one or_one_def)
  have first: "\<And>q'. parse_query q' = None \<or> parse_query q' = Some 0 \<Longrightarrow>
      get_pokemons ps q' = get_pokemons ps (Some (QStr ''1''))"
  proof -
    fix q' assume "parse_query q' = None \<or> parse_query q' = Some 0"
    then have "or_one (parse_query q') = 1" by (auto simp: or_one_def)
    with one show "get_pokemons ps q' = get_pokemons ps (Some (QStr ''1''))"
      by (simp add: get_pokemons_def)
  qed
  have negative: "parse_query q = Some n \<and> n < 0 \<Longrightarrow>
      get_pokemons ps q =
        \<lparr>status = 200,
         body = Listing (slice ps ((n - 1) * 20) ((n - 1) * 20 + 20))
           \<lparr>currentPage = n, totalPages = \<lceil>real (length ps) / 20\<rceil>,
            totalPokemons = length ps, itemsPerPage = 20,
            hasNextPage = True, hasPreviousPage = False\<rparr>\<rparr>"
  proof -
    assume a: "parse_query q = Some n \<and> n < 0"
    then have p: "or_one (parse_query q) = n" by (simp add: or_one_def)
    have "n < \<lceil>real (length ps) / 20\<rceil>"
      using a ceil_pages_nonneg[of "length ps"] by linarith
    then show ?thesis
      using a unfolding get_pokemons_def p list_page_def Let_def by simp
  qed
  show ?thesis
  proof (intro conjI impI)
    show "parse_query None = None" by (rule parse_query_absent)
    show "get_pokemons ps None = get_pokemons ps (Some (QStr ''1''))"
      using first[of None] parse_query_absent by simp
    show "get_pokemons ps q = get_pokemons ps (Some (QStr ''1''))"
      if "parse_query q = None \<or> parse_query q = Some 0"
      using that by (rule first)
    show "status (get_pokemons ps q) = 200" if "parse_query q = Some n \<and> n < 0"
      using negative[OF that] by simp
    show "\<exists>d pg. body (get_pokemons ps q) = Listing d pg
             \<and> hasNextPage pg \<and> \<not> hasPreviousPage pg"
      if "parse_query q = Some n \<and> n < 0"
      using negative[OF that] by simp
    show "get_pokemons ps q =
        \<lparr>status = 200,
         body = Listing (slice ps ((n - 1) * 20) ((n - 1) * 20 + 20))
           \<lparr>currentPage = n, totalPages = \<lceil>real (length ps) / 20\<rceil>,
            totalPokemons = length ps, itemsPerPage = 20,
            hasNextPage = True, hasPreviousPage = False\<rparr>\<rparr>"
      if "parse_query q = Some n \<and> n < 0 \<and> - (2 ^ 53) \<le> n"
      using negative that by blast
  qed
qed

theorem page_zero_or_unreadable_is_page_one_witness:
  "get_pokemons (records_with_ids 1 25) None =
     get_pokemons (records_with_ids 1 25) (Some (QStr ''1''))
   \<and> get_pokemons (records_with_ids 1 25) (Some (QStr ''abc'')) =
     get_pokemons (records_with_ids 1 25) (Some (QStr ''1''))
   \<and> get_pokemons (records_with_ids 1 25) (Some (QStr ''-1'')) =
     \<lparr>status = 200,
      body = Listing (records_with_ids 1 5)
        \<lparr>currentPage = - 1, totalPages = 2, totalPokemons = 25, itemsPerPage = 20,
         hasNextPage = True, hasPreviousPage = False\<rparr>\<rparr>"
proof -
  have l: "length (records_with_ids 1 25) = 25" by (simp add: records_with_ids_def)
  have c: "\<lceil>real 25 / 20\<rceil> = (2::int)" by (simp add: ceiling_eq_iff)
  have s: "slice (records_with_ids 1 25) ((- 1 - 1) * 20) ((- 1 - 1) * 20 + 20) =
      records_with_ids 1 5"
    by code_simp
  show ?thesis
    using page_zero_or_unreadable_is_page_one[of "records_with_ids 1 25" "Some (QStr ''abc'')" 0]
      page_zero_or_unreadable_is_page_one[of "records_with_ids 1 25" "Some (QStr ''-1'')" "- 1"]
    unfolding parse_query_abc parse_query_minus_one l c s by simp
qed

section \<open>Searching\<close>

lemma is_prefix_iff: "is_prefix t s = (\<exists>v. s = t @ v)"
  by (induction t s rule: is_prefix.induct) auto

lemma includes_str_iff: "includes_str s t = (\<exists>u v. s = u @ t @ v)"
proof (induction s)
  case Nil
  then show ?case by simp
next
  case (Cons c s)
  show ?case
  proof
    assume "includes_str (c # s) t"
    then consider "is_prefix t (c # s)" | "includes_str s t" by auto
    then show "\<exists>u v. c # s = u @ t @ v"
    proof cases
      case 1
      then obtain v where "c # s = t @ v" unfolding is_prefix_iff by blast
      then have "c # s = [] @ t @ v" by simp
      then show ?thesis by blast
    next
      case 2
      then obtain u v where "s = u @ t @ v" using Cons.IH by blast
      then have "c # s = (c # u) @ t @ v" by simp
      then show ?thesis by blast
    qed
  next
    assume "\<exists>u v. c # s = u @ t @ v"
    then obtain u v where e: "c # s = u @ t @ v" by blast
    show "includes_str (c # s) t"
    proof (cases u)
      case Nil
      with e have "is_prefix t (c # s)" unfolding is_prefix_iff by auto
      then show ?thesis by simp
    next
      case (Cons a u')
      with e have "s = u' @ t @ v" by simp
      then have "includes_str s t" using Cons.IH by blast
      then show ?thesis by simp
    qed
  qed
qed

lemma lowered_field_value:
  "lowered_field lc (get_property p ''name'') l =
     (case language_value p l of Some s \<Rightarrow> Inr (lc s) | None \<Rightarrow> Inl TypeError)"
  by (simp add: lowered_field_def language_value_def split: option.splits json.splits)

lemma language_includes_value:
  "language_includes lc sn p l =
     (case language_value p l of
        Some s \<Rightarrow> Inr (includes_str (lc s) sn)
      | None \<Rightarrow> Inl TypeError)"
  by (simp add: language_includes_def lowered_field_value split: option.splits)

lemma name_includes_throws:
  "(name_includes lc sn p = Inl TypeError) = gap_first lc sn p languages"
  by (simp add: name_includes_def languages_def language_includes_value or_else_def
      split: option.splits)

lemma name_includes_well_named:
  "well_named p \<Longrightarrow> name_includes lc (lc q) p = Inr (matches_query lc q p)"
  by (auto simp add: name_includes_def well_named_def matches_query_def languages_def
      language_includes_value or_else_def split: option.splits)

lemma error_is_TypeError: "(e :: error) = TypeError"
  by (cases e) simp

lemma filter_arr_throws:
  "(filter_arr f xs = Inl TypeError) = (\<exists>x \<in> set xs. f x = Inl TypeError)"
  by (induction xs) (auto split: sum.splits simp: error_is_TypeError)

lemma filter_arr_returns:
  "\<forall>x \<in> set xs. f x = Inr (g x) \<Longrightarrow> filter_arr f xs = Inr (filter g xs)"
  by (induction xs) auto


lemma matches_query_iff:
  "matches_query lc q p =
     (\<exists>l \<in> set languages. \<exists>s u v. language_value p l = Some s \<and> lc s = u @ lc q @ v)"
proof -
  have "\<And>l. (case language_value p l of
               Some s \<Rightarrow> includes_str (lc s) (lc q)
             | None \<Rightarrow> False) =
           (\<exists>s u v. language_value p l = Some s \<and> lc s = u @ lc q @ v)"
    subgoal for l by (cases "language_value p l") (simp_all add: includes_str_iff)
    done
  then show ?thesis by (simp add: matches_query_def list_ex_iff)
qed

text \<open>
  Claim C4 as stated fails where a name has a language beyond the four that the
  handler reads: the German value of this record contains the query, and the search
  answers 404 with no result.
\<close>

theorem fifth_language_counterexample:
  "map_of (own bisasam) ''name'' =
     Some (JObj [(''english'', JStr ''Bulbasaur''), (''japanese'', JStr ''Fushigidane''),
                 (''chinese'', JStr ''Miaowazhongzi''), (''french'', JStr ''Bulbizarre''),
                 (''german'', JStr ''Bisasam'')])
   \<and> includes_str (toLowerCase_latin1 ''Bisasam'') (toLowerCase_latin1 ''bisa'')
   \<and> get_pokemons_search toLowerCase_latin1 [bisasam] ''bisa'' =
       Inr \<lparr>status = 404, body = SearchResults (none_found_message ''bisa'') []\<rparr>"
  by code_simp


text \<open>
  Claim C4, amended. On a store in which every record's name holds a string for each
  of \<open>english\<close>, \<open>french\<close>, \<open>japanese\<close> and \<open>chinese\<close>, the search returns exactly the
  records one of whose four values contains the query, both taken in lower case, in
  the order of the store, with status 200; when there is none it answers 404 with a
  message that quotes the query and an empty \<open>results\<close> array.
\<close>

theorem search_returns_matches:
  assumes "list_all well_named ps"
  shows "get_pokemons_search lc ps q =
     Inr (if filter (matches_query lc q) ps = []
          then \<lparr>status = 404, body = SearchResults (none_found_message q) []\<rparr>
          else \<lparr>status = 200,
                body = SearchResults (found_message (length (filter (matches_query lc q) ps)))
                         (filter (matches_query lc q) ps)\<rparr>)
     \<and> (\<forall>p. matches_query lc q p =
           (\<exists>l \<in> set languages. \<exists>s u v. language_value p l = Some s \<and> lc s = u @ lc q @ v))"
proof -
  have "\<forall>p \<in> set ps. name_includes lc (lc q) p = Inr (matches_query lc q p)"
    using assms by (simp add: list_all_iff name_includes_well_named)
  then have "filter_arr (name_includes lc (lc q)) ps = Inr (filter (matches_query lc q) ps)"
    by (rule filter_arr_returns)
  then show ?thesis
    using matches_query_iff by (simp add: get_pokemons_search_def Let_def)
qed

theorem search_returns_matches_witness:
  "list_all well_named [bulbasaur, pikachu]
   \<and> get_pokemons_search toLowerCase_latin1 [bulbasaur, pikachu] ''PIKA'' =
       Inr \<lparr>status = 200, body = SearchResults (found_message 1) [pikachu]\<rparr>
   \<and> get_pokemons_search toLowerCase_latin1 [bulbasaur, pikachu] ''u'' =
       Inr \<lparr>status = 200, body = SearchResults (found_message 2) [bulbasaur, pikachu]\<rparr>
   \<and> get_pokemons_search toLowerCase_latin1 [bulbasaur, pikachu] ''zzz'' =
       Inr \<lparr>status = 404, body = SearchResults (none_found_message ''zzz'') []\<rparr>"
proof -
  have w: "list_all well_named [bulbasaur, pikachu]" by code_simp
  have f1: "filter (matches_query toLowerCase_latin1 ''PIKA'') [bulbasaur, pikachu] = [pikachu]"
    by code_simp
  have f2: "filter (matches_query toLowerCase_latin1 ''u'') [bulbasaur, pikachu] = [bulbasaur, pikachu]"
    by code_simp
  have f3: "filter (matches_query toLowerCase_latin1 ''zzz'') [bulbasaur, pikachu] = []"
    by code_simp
  show ?thesis
    using w search_returns_matches[OF w, of toLowerCase_latin1 "''PIKA''"]
      search_returns_matches[OF w, of toLowerCase_latin1 "''u''"]
      search_returns_matches[OF w, of toLowerCase_latin1 "''zzz''"]
    unfolding f1 f2 f3 by (simp add: numeral_2_eq_2)
qed

section \<open>Fields, indices and the created record\<close>

lemma map_of_update_field:
  "map_of kvs k \<noteq> None \<Longrightarrow>
     map_of (update_field k v kvs) k' = (if k' = k then Some v else map_of kvs k')"
  by (induction kvs) auto

lemma map_of_insert_index:
  "map_of kvs k = None \<Longrightarrow>
     map_of (insert_index n k v kvs) k' = (if k' = k then Some v else map_of kvs k')"
  by (induction kvs) (auto split: option.splits if_splits)

lemma map_of_snoc:
  "map_of kvs k = None \<Longrightarrow>
     map_of (kvs @ [(k, v)]) k' = (if k' = k then Some v else map_of kvs k')"
  by (auto simp: map_add_def split: option.splits)

lemma map_of_set_field:
  "map_of (set_field k v kvs) k' = (if k' = k then Some v else map_of kvs k')"
proof (cases "map_of kvs k")
  case None
  then show ?thesis
    unfolding set_field_def
    by (cases "array_index k") (simp_all add: map_of_insert_index map_of_snoc del: map_of_append)
next
  case (Some w)
  then have "map_of kvs k \<noteq> None" by simp
  then show ?thesis
    unfolding set_field_def by (simp add: map_of_update_field)
qed

lemma set_update_field: "set (update_field k v kvs) \<subseteq> insert (k, v) (set kvs)"
  by (induction kvs) (auto split: if_splits)

lemma set_insert_index: "set (insert_index n k v kvs) \<subseteq> insert (k, v) (set kvs)"
  by (induction kvs) (auto split: option.splits if_splits)

lemma set_set_field: "set (set_field k v kvs) \<subseteq> insert (k, v) (set kvs)"
  unfolding set_field_def
  using set_update_field[of k v kvs] set_insert_index[of _ k v kvs]
  by (auto split: option.splits)

lemma findIndex_Some:
  "findIndex f xs = Some i \<Longrightarrow> i < length xs \<and> f (xs ! i) \<and> (\<forall>j < i. \<not> f (xs ! j))"
proof (induction xs arbitrary: i)
  case Nil
  then show ?case by simp
next
  case (Cons x xs)
  show ?case
  proof (cases "f x")
    case True
    with Cons.prems show ?thesis by simp
  next
    case False
    with Cons.prems obtain i' where i': "findIndex f xs = Some i'" "i = Suc i'" by auto
    from Cons.IH[OF i'(1)] False i'(2) show ?thesis
      by (auto simp: nth_Cons split: nat.splits)
  qed
qed

lemma findIndex_None: "(findIndex f xs = None) = (\<forall>x \<in> set xs. \<not> f x)"
  by (induction xs) auto

lemma get_property_plain: "get_property (plain kvs) k = map_of kvs k"
  by (simp add: get_property_def plain_def split: option.splits)

lemma search_throws:
  "(get_pokemons_search lc ps q = Inl TypeError) = (\<exists>p \<in> set ps. gap_first lc (lc q) p languages)"
proof -
  have "(get_pokemons_search lc ps q = Inl TypeError) =
      (filter_arr (name_includes lc (lc q)) ps = Inl TypeError)"
    by (simp add: get_pokemons_search_def Let_def error_is_TypeError split: sum.splits)
  then show ?thesis
    by (simp add: filter_arr_throws name_includes_throws)
qed

lemma gap_first_english: "language_value p ''english'' = None \<Longrightarrow> gap_first lc sn p languages"
  by (simp add: languages_def)

lemma well_named_no_gap: "well_named p \<Longrightarrow> \<not> gap_first lc sn p languages"
  by (auto simp: well_named_def languages_def)

lemma post_created:
  assumes "post_pokemons coerce st (JObj props) = (Inr r, st')" and "status r = 201"
  shows "\<exists>newId. pokemons st' = pokemons st @ [plain (set_field ''id'' (JNum newId) props)]
           \<and> r = \<lparr>status = 201, body = Record (plain (set_field ''id'' (JNum newId) props))\<rparr>"
  using assms
  by (auto simp: post_pokemons_def Let_def writeFileSync_def split: if_splits sum.splits)

lemma language_value_set_id:
  "language_value (plain (set_field ''id'' v props)) l = language_value (plain props) l"
  by (simp add: language_value_def get_property_plain map_of_set_field)

lemma assign_name: "assign_field p (''name'', v) = p\<lparr>own := set_field ''name'' v (own p)\<rparr>"
  by (simp add: assign_field_def)

lemma object_assign_name:
  "object_assign p (JObj [(''name'', v)]) = p\<lparr>own := set_field ''name'' v (own p)\<rparr>"
  by (simp add: object_assign_def own_entries_def assign_name)

lemma language_value_set_name:
  "language_value (p\<lparr>own := set_field ''name'' v (own p)\<rparr>) l =
     language_value (plain [(''name'', v)]) l"
  by (simp add: language_value_def get_property_def plain_def map_of_set_field)

text \<open>
  Claim C10 as stated fails: \<^verbatim>\<open>||\<close> stops at the first language whose value contains
  the query. This record has no French, Japanese or Chinese value, and a query that
  its English value contains is answered 200.
\<close>

theorem partly_named_record_counterexample:
  "language_value squirtle ''french'' = None
   \<and> get_pokemons_search toLowerCase_latin1 [squirtle] ''SQUIRT'' =
       Inr \<lparr>status = 200, body = SearchResults (found_message 1) [squirtle]\<rparr>"
  by code_simp

text \<open>
  Claim C10, amended. The name of a record is what \<^verbatim>\<open>p.name\<close> gives: its own field, or
  else the field of the object that an update made its prototype. The search throws
  exactly when, for some record, reading \<open>english\<close>, \<open>french\<close>, \<open>japanese\<close>, \<open>chinese\<close> of
  that name in this order meets a field that is missing or not a string before one
  that contains the query. Hence it returns on every store whose records hold a string
  for all four, and it throws for every query when some record has no English string;
  where only a later field is missing it still returns for the queries that an earlier
  field contains. Such stores are reachable: a successful creation keeps the name of
  the payload as it is, whatever it holds, and an update with a new name replaces the
  name by any value.
\<close>

theorem search_throws_exactly_at_a_gap:
  "(get_pokemons_search lc ps q = Inl TypeError) =
      (\<exists>p \<in> set ps. gap_first lc (lc q) p languages)
   \<and> (list_all well_named ps \<longrightarrow> (\<exists>r. get_pokemons_search lc ps q = Inr r))
   \<and> ((\<exists>p \<in> set ps. language_value p ''english'' = None) \<longrightarrow>
        get_pokemons_search lc ps q = Inl TypeError)
   \<and> (post_pokemons coerce st (JObj props) = (Inr r, st') \<and> status r = 201
        \<and> language_value (plain props) ''english'' = None \<longrightarrow>
        get_pokemons_search lc (pokemons st') q = Inl TypeError)
   \<and> (findIndex (has_id id_param) (pokemons st) \<noteq> None
        \<and> language_value (plain [(''name'', v)]) ''english'' = None \<longrightarrow>
        get_pokemons_search lc (pokemons (snd (put_pokemons st id_param (JObj [(''name'', v)])))) q
          = Inl TypeError)"
proof (intro conjI impI)
  show "(get_pokemons_search lc ps q = Inl TypeError) =
      (\<exists>p \<in> set ps. gap_first lc (lc q) p languages)"
    by (rule search_throws)
next
  assume "list_all well_named ps"
  then have "get_pokemons_search lc ps q \<noteq> Inl TypeError"
    by (auto simp: search_throws list_all_iff well_named_no_gap)
  then show "\<exists>r. get_pokemons_search lc ps q = Inr r"
    by (cases "get_pokemons_search lc ps q") (auto simp: error_is_TypeError)
next
  assume "\<exists>p \<in> set ps. language_value p ''english'' = None"
  then show "get_pokemons_search lc ps q = Inl TypeError"
    unfolding search_throws using gap_first_english by blast
next
  assume a: "post_pokemons coerce st (JObj props) = (Inr r, st') \<and> status r = 201
        \<and> language_value (plain props) ''english'' = None"
  then obtain newId
    where "pokemons st' = pokemons st @ [plain (set_field ''id'' (JNum newId) props)]"
    using post_created by blast
  moreover have "language_value (plain (set_field ''id'' (JNum newId) props)) ''english'' = None"
    using a by (simp add: language_value_set_id)
  ultimately have "\<exists>p \<in> set (pokemons st'). language_value p ''english'' = None"
    by auto
  then show "get_pokemons_search lc (pokemons st') q = Inl TypeError"
    unfolding search_throws using gap_first_english by blast
next
  assume a: "findIndex (has_id id_param) (pokemons st) \<noteq> None
        \<and> language_value (plain [(''name'', v)]) ''english'' = None"
  then obtain i where i: "findIndex (has_id id_param) (pokemons st) = Some i" by auto
  then have len: "i < length (pokemons st)" using findIndex_Some by blast
  let ?p = "(pokemons st ! i)\<lparr>own := set_field ''name'' v (own (pokemons st ! i))\<rparr>"
  have "pokemons (snd (put_pokemons st id_param (JObj [(''name'', v)]))) = (pokemons st)[i := ?p]"
    using i by (simp add: put_pokemons_def Let_def writeFileSync_def object_assign_name)
  moreover have "?p \<in> set ((pokemons st)[i := ?p])"
    using len by (simp add: set_update_memI)
  moreover have "language_value ?p ''english'' = None"
    using a by (simp add: language_value_set_name)
  ultimately have "\<exists>p \<in> set (pokemons (snd (put_pokemons st id_param (JObj [(''name'', v)])))).
      language_value p ''english'' = None"
    by auto
  then show "get_pokemons_search lc (pokemons (snd (put_pokemons st id_param (JObj [(''name'', v)])))) q
          = Inl TypeError"
    unfolding search_throws using gap_first_english by blast
qed

text \<open>
  The last part of the evaluation below is the record \<open>nameless\<close> after an update gave
  it a prototype with a name: the search reads that name and returns.
\<close>

theorem search_throws_exactly_at_a_gap_witness:
  "get_pokemons_search toLowerCase_latin1 [squirtle] ''zzz'' = Inl TypeError
   \<and> list_all well_named [bulbasaur, pikachu]
   \<and> (\<exists>r. get_pokemons_search toLowerCase_latin1 [bulbasaur, pikachu] ''pika'' = Inr r)
   \<and> fst (post_pokemons no_coercion (writeFileSync [bulbasaur]) (JObj missingno)) =
       Inr \<lparr>status = 201, body = Record (plain (missingno @ [(''id'', JNum (Num 2))]))\<rparr>
   \<and> get_pokemons_search toLowerCase_latin1
        (pokemons (snd (post_pokemons no_coercion (writeFileSync [bulbasaur]) (JObj missingno))))
        ''bulba'' = Inl TypeError
   \<and> get_pokemons_search toLowerCase_latin1
        (pokemons (snd (put_pokemons (writeFileSync [bulbasaur]) ''1''
                          (JObj [(''name'', JStr ''Bulbasaur'')]))))
        ''bulba'' = Inl TypeError
   \<and> get_pokemons_search toLowerCase_latin1 [nameless] ''ditto'' = Inl TypeError
   \<and> (\<exists>r. get_pokemons_search toLowerCase_latin1
        (pokemons (snd (put_pokemons (writeFileSync [nameless]) ''3'' (JObj lend_name))))
        ''ditto'' = Inr r)"
proof -
  have g: "\<exists>p \<in> set [squirtle].
      gap_first toLowerCase_latin1 (toLowerCase_latin1 ''zzz'') p languages"
    by code_simp
  have w: "list_all well_named [bulbasaur, pikachu]" by code_simp
  have c: "fst (post_pokemons no_coercion (writeFileSync [bulbasaur]) (JObj missingno)) =
       Inr \<lparr>status = 201, body = Record (plain (missingno @ [(''id'', JNum (Num 2))]))\<rparr>"
    by code_simp
  then have c': "post_pokemons no_coercion (writeFileSync [bulbasaur]) (JObj missingno) =
      (Inr \<lparr>status = 201, body = Record (plain (missingno @ [(''id'', JNum (Num 2))]))\<rparr>,
       snd (post_pokemons no_coercion (writeFileSync [bulbasaur]) (JObj missingno)))"
    by (simp add: prod_eq_iff)
  have e: "language_value (plain missingno) ''english'' = None" by code_simp
  have f: "findIndex (has_id ''1'') (pokemons (writeFileSync [bulbasaur])) \<noteq> None" by code_simp
  have n: "language_value (plain [(''name'', JStr ''Bulbasaur'')]) ''english'' = None"
    by code_simp
  have m: "\<exists>p \<in> set [nameless]. language_value p ''english'' = None" by code_simp
  have l: "list_all well_named
      (pokemons (snd (put_pokemons (writeFileSync [nameless]) ''3'' (JObj lend_name))))"
    by code_simp
  show ?thesis
    using g w c c' e f n m l
      search_throws_exactly_at_a_gap[of toLowerCase_latin1 "[squirtle]" "''zzz''"]
      search_throws_exactly_at_a_gap[of toLowerCase_latin1 "[bulbasaur, pikachu]" "''pika''"]
      search_throws_exactly_at_a_gap[of toLowerCase_latin1 _ "''bulba''" no_coercion
        "writeFileSync [bulbasaur]" missingno
        "\<lparr>status = 201, body = Record (plain (missingno @ [(''id'', JNum (Num 2))]))\<rparr>"
        "snd (post_pokemons no_coercion (writeFileSync [bulbasaur]) (JObj missingno))"
        "''1''" "JStr ''Bulbasaur''"]
      search_throws_exactly_at_a_gap[of toLowerCase_latin1 "[nameless]" "''ditto''"]
      search_throws_exactly_at_a_gap[of toLowerCase_latin1
        "pokemons (snd (put_pokemons (writeFileSync [nameless]) ''3'' (JObj lend_name)))"
        "''ditto''"]
    by simp
qed

section \<open>Creating\<close>

lemma to_numbers_numbers:
  "to_numbers coerce (map (\<lambda>i. Some (JNum (Num i))) ids) = Inr (map Num ids)"
  by (induction ids) (simp_all add: to_number_def)

lemma math_max_numbers: "math_max (Num a) (map Num ids) = Num (Max (set (a # ids)))"
proof (induction ids arbitrary: a)
  case Nil
  then show ?case by (simp add: math_max_def)
next
  case (Cons b ids)
  have "math_max (Num a) (map Num (b # ids)) = math_max (Num (max a b)) (map Num ids)"
    by (simp add: math_max_def)
  also have "\<dots> = Num (Max (set (max a b # ids)))" by (rule Cons.IH)
  also have "Max (set (max a b # ids)) = Max (set (a # b # ids))"
    by (cases "ids = []") (simp_all add: max.assoc)
  finally show ?case .
qed

lemma new_id_numbers:
  assumes "map (\<lambda>p. get_property p ''id'') ps = map (\<lambda>i. Some (JNum (Num i))) ids"
    and "\<forall>i \<in> set ids. \<bar>i\<bar> < 2 ^ 53"
  shows "new_id coerce ps = Inr (Num (if ids = [] then 1 else Max (set ids) + 1))"
proof (cases ps)
  case Nil
  with assms show ?thesis by (simp add: new_id_def)
next
  case (Cons p ps')
  with assms obtain a ids' where ids: "ids = a # ids'"
    and p: "get_property p ''id'' = Some (JNum (Num a))"
    and r: "map (\<lambda>p. get_property p ''id'') ps' = map (\<lambda>i. Some (JNum (Num i))) ids'"
    by (cases ids) auto
  have "Max (set (a # ids')) \<in> set (a # ids')"
    by (rule Max_in) simp_all
  then have "\<bar>Max (set (a # ids'))\<bar> < 2 ^ 53"
    using assms(2) ids by blast
  then have "\<bar>Max (set (a # ids')) + 1\<bar> \<le> 2 ^ 53" by simp
  then have "round_double (Max (set (a # ids')) + 1) = Num (Max (set (a # ids')) + 1)"
    by (rule round_double_exact)
  then show ?thesis
    unfolding new_id_def Cons ids
    by (simp add: p r to_numbers_numbers to_number_def math_max_numbers plus_one_def
        del: set_simps Max_insert)
qed

lemma falsy_values:
  "(\<not> to_boolean v) =
     (v = None \<or> v = Some JNull \<or> v = Some (JBool False) \<or> v = Some (JNum NaN)
      \<or> v = Some (JNum (Num 0)) \<or> v = Some (JStr []))"
  by (auto simp: to_boolean_def split: option.splits json.splits number.splits)

text \<open>
  Claim C2 as stated fails: the handler tests \<^verbatim>\<open>!newPokemon.name\<close>, which is true of a
  field that is present and falsy. This payload contains \<open>name\<close>, \<open>type\<close> and \<open>base\<close>,
  its name is the empty string, and the creation is answered 400.
\<close>

theorem empty_name_counterexample:
  "map_of empty_name ''name'' = Some (JStr [])
   \<and> map_of empty_name ''type'' = Some (JArr [JStr ''Normal''])
   \<and> map_of empty_name ''base'' = Some (JObj [(''HP'', JNum (Num 55))])
   \<and> post_pokemons no_coercion (writeFileSync (records_with_ids 1 25)) (JObj empty_name) =
       (Inr \<lparr>status = 400, body = Message invalid_message\<rparr>,
        writeFileSync (records_with_ids 1 25))"
  by code_simp

text \<open>
  Claim C2, amended. For every payload whose \<open>name\<close>, \<open>type\<close> and \<open>base\<close> are truthy, on a
  store in which \<^verbatim>\<open>p.id\<close> is, for every record, an integer of magnitude below \<open>2^53\<close>,
  the creation succeeds: the new id is the greatest id plus one, or 1 on the empty
  store; it is written into the payload (whose other fields stay), the record goes to
  the end of the store, the store is written to the file, and the record is returned
  with status 201. The bound is needed: the sum is a double, and from the greatest id
  \<open>2^53\<close> on it is rounded (lemma \<open>plus_one_rounds\<close>: the new id is then \<open>2^53\<close> again).
\<close>

theorem create_assigns_next_id:
  assumes "to_boolean (map_of props ''name'')" and "to_boolean (map_of props ''type'')"
    and "to_boolean (map_of props ''base'')"
    and "map (\<lambda>p. get_property p ''id'') (pokemons st) = map (\<lambda>i. Some (JNum (Num i))) ids"
    and "\<forall>i \<in> set ids. \<bar>i\<bar> < 2 ^ 53"
  shows "(let n = (if ids = [] then 1 else Max (set ids) + 1);
              created = plain (set_field ''id'' (JNum (Num n)) props)
          in post_pokemons coerce st (JObj props) =
               (Inr \<lparr>status = 201, body = Record created\<rparr>,
                \<lparr>pokemons = pokemons st @ [created],
                 data_file =
                   stringify (JArr (map (\<lambda>p. JObj (own p)) (pokemons st @ [created])))\<rparr>)
             \<and> get_property created ''id'' = Some (JNum (Num n))
             \<and> (\<forall>k. k \<noteq> ''id'' \<longrightarrow> get_property created k = map_of props k))"
proof -
  let ?n = "Num (if ids = [] then 1 else Max (set ids) + 1)"
  let ?c = "plain (set_field ''id'' (JNum ?n) props)"
  have "new_id coerce (pokemons st) = Inr ?n"
    using assms(4,5) by (rule new_id_numbers)
  then have "post_pokemons coerce st (JObj props) =
       (Inr \<lparr>status = 201, body = Record ?c\<rparr>,
        \<lparr>pokemons = pokemons st @ [?c],
         data_file = stringify (JArr (map (\<lambda>p. JObj (own p)) (pokemons st @ [?c])))\<rparr>)"
    using assms(1-3) by (simp add: post_pokemons_def Let_def writeFileSync_def)
  then show ?thesis
    by (simp add: Let_def get_property_plain map_of_set_field)
qed

theorem create_assigns_next_id_witness:
  "post_pokemons no_coercion (writeFileSync (records_with_ids 1 25)) (JObj eevee) =
     (Inr \<lparr>status = 201, body = Record (plain (eevee @ [(''id'', JNum (Num 26))]))\<rparr>,
      \<lparr>pokemons = records_with_ids 1 25 @ [plain (eevee @ [(''id'', JNum (Num 26))])],
       data_file =
         JArr (map (\<lambda>p. JObj (own p))
                 (records_with_ids 1 25 @ [plain (eevee @ [(''id'', JNum (Num 26))])]))\<rparr>)"
proof -
  have t: "to_boolean (map_of eevee ''name'')" "to_boolean (map_of eevee ''type'')"
    "to_boolean (map_of eevee ''base'')"
    by code_simp+
  have i: "map (\<lambda>p. get_property p ''id'') (pokemons (writeFileSync (records_with_ids 1 25))) =
      map (\<lambda>i. Some (JNum (Num i))) [1..25]"
    by (simp add: writeFileSync_def records_with_ids_def get_property_plain comp_def)
  have b: "\<forall>i \<in> set [1..25]. \<bar>i\<bar> < (2::int) ^ 53" by simp
  have m: "(if [1..25] = [] then 1 else Max (set [1..25]) + 1) = (26::int)"
    by code_simp
  have c: "set_field ''id'' (JNum (Num 26)) eevee = eevee @ [(''id'', JNum (Num 26))]"
    by code_simp
  have p: "pokemons (writeFileSync (records_with_ids 1 25)) = records_with_ids 1 25"
    by (simp add: writeFileSync_def)
  have s: "stringify (JArr (map (\<lambda>p. JObj (own p))
                 (records_with_ids 1 25 @ [plain (eevee @ [(''id'', JNum (Num 26))])])))
      = JArr (map (\<lambda>p. JObj (own p))
                 (records_with_ids 1 25 @ [plain (eevee @ [(''id'', JNum (Num 26))])]))"
    by code_simp
  show ?thesis
    using create_assigns_next_id[OF t i b, of no_coercion]
    unfolding Let_def m c p s by simp
qed

text \<open>
  Claim C3 as stated fails for the same reason: this payload has all three fields,
  \<open>base\<close> is the number 0, and the creation is answered 400.
\<close>

theorem zero_base_counterexample:
  "map_of zero_base ''name'' \<noteq> None \<and> map_of zero_base ''type'' \<noteq> None
   \<and> map_of zero_base ''base'' = Some (JNum (Num 0))
   \<and> fst (post_pokemons no_coercion (writeFileSync [bulbasaur]) (JObj zero_base)) =
       Inr \<lparr>status = 400, body = Message invalid_message\<rparr>"
  by code_simp

text \<open>
  Claim C3, amended. The creation is answered 400 exactly when the body is an array or
  a primitive other than \<^verbatim>\<open>null\<close>, or an object in which one of \<open>name\<close>, \<open>type\<close>, \<open>base\<close> is
  absent or falsy: \<^verbatim>\<open>null\<close>, \<^verbatim>\<open>false\<close>, \<open>0\<close>, \<^verbatim>\<open>NaN\<close> or the empty string. The store and
  the file are then unchanged.
\<close>

theorem create_rejects_falsy_fields:
  "(fst (post_pokemons coerce st newPokemon) =
        Inr \<lparr>status = 400, body = Message invalid_message\<rparr>) =
     (newPokemon \<noteq> JNull \<and>
      \<not> (\<exists>props. newPokemon = JObj props \<and> to_boolean (map_of props ''name'')
             \<and> to_boolean (map_of props ''type'') \<and> to_boolean (map_of props ''base'')))
   \<and> (fst (post_pokemons coerce st newPokemon) =
        Inr \<lparr>status = 400, body = Message invalid_message\<rparr> \<longrightarrow>
      snd (post_pokemons coerce st newPokemon) = st)
   \<and> (\<forall>v. (\<not> to_boolean v) =
         (v = None \<or> v = Some JNull \<or> v = Some (JBool False) \<or> v = Some (JNum NaN)
          \<or> v = Some (JNum (Num 0)) \<or> v = Some (JStr [])))"
proof (intro conjI impI allI)
  show "(fst (post_pokemons coerce st newPokemon) =
        Inr \<lparr>status = 400, body = Message invalid_message\<rparr>) =
     (newPokemon \<noteq> JNull \<and>
      \<not> (\<exists>props. newPokemon = JObj props \<and> to_boolean (map_of props ''name'')
             \<and> to_boolean (map_of props ''type'') \<and> to_boolean (map_of props ''base'')))"
    by (cases newPokemon) (auto simp: post_pokemons_def Let_def split: sum.splits)
next
  assume "fst (post_pokemons coerce st newPokemon) =
        Inr \<lparr>status = 400, body = Message invalid_message\<rparr>"
  then show "snd (post_pokemons coerce st newPokemon) = st"
    by (cases newPokemon) (auto simp: post_pokemons_def Let_def split: sum.splits if_splits)
next
  fix v
  show "(\<not> to_boolean v) =
         (v = None \<or> v = Some JNull \<or> v = Some (JBool False) \<or> v = Some (JNum NaN)
          \<or> v = Some (JNum (Num 0)) \<or> v = Some (JStr []))"
    by (rule falsy_values)
qed

theorem create_rejects_falsy_fields_witness:
  "post_pokemons no_coercion (writeFileSync [bulbasaur]) (JObj typeless) =
     (Inr \<lparr>status = 400, body = Message invalid_message\<rparr>, writeFileSync [bulbasaur])
   \<and> fst (post_pokemons no_coercion (writeFileSync [bulbasaur]) (JObj eevee)) \<noteq>
     Inr \<lparr>status = 400, body = Message invalid_message\<rparr>"
proof -
  have a: "\<not> to_boolean (map_of typeless ''type'')" by code_simp
  have t: "to_boolean (map_of eevee ''name'')" "to_boolean (map_of eevee ''type'')"
    "to_boolean (map_of eevee ''base'')"
    by code_simp+
  show ?thesis
    using a t
      create_rejects_falsy_fields[of no_coercion "writeFileSync [bulbasaur]" "JObj typeless"]
      create_rejects_falsy_fields[of no_coercion "writeFileSync [bulbasaur]" "JObj eevee"]
    by (auto simp: prod_eq_iff)
qed

section \<open>Updating\<close>

lemma map_of_rev_distinct: "distinct (map fst xs) \<Longrightarrow> map_of (rev xs) k = map_of xs k"
proof (induction xs)
  case Nil
  then show ?case by simp
next
  case (Cons x xs)
  obtain a b where x: "x = (a, b)" by (cases x)
  from Cons.prems have n: "a \<notin> fst ` set xs" and d: "distinct (map fst xs)"
    by (simp_all add: x)
  from n have "map_of (rev xs) a = None" by (simp add: map_of_eq_None_iff)
  with Cons.IH[OF d] show ?case
    by (auto simp: x map_add_def split: option.splits)
qed

lemma own_assign_field:
  "k \<noteq> ''__proto__'' \<Longrightarrow>
     map_of (own (assign_field p e)) k = (if k = fst e then Some (snd e) else map_of (own p) k)"
  by (auto simp: assign_field_def map_of_set_field)

lemma own_foldl_assign:
  "k \<noteq> ''__proto__'' \<Longrightarrow>
     map_of (own (foldl assign_field p es)) k =
       (case map_of (rev es) k of Some v \<Rightarrow> Some v | None \<Rightarrow> map_of (own p) k)"
proof (induction es rule: rev_induct)
  case Nil
  then show ?case by simp
next
  case (snoc e es)
  obtain a b where e: "e = (a, b)" by (cases e)
  show ?case
    using snoc by (simp add: own_assign_field e)
qed

lemma foldl_assign_other_keys:
  "''__proto__'' \<notin> fst ` set es \<Longrightarrow>
     proto (foldl assign_field p es) = proto p
     \<and> map_of (own (foldl assign_field p es)) ''__proto__'' = map_of (own p) ''__proto__''"
proof (induction es arbitrary: p)
  case Nil
  then show ?case by simp
next
  case (Cons e es)
  then have k: "fst e \<noteq> ''__proto__''" and r: "''__proto__'' \<notin> fst ` set es" by auto
  from k have "proto (assign_field p e) = proto p"
    and "map_of (own (assign_field p e)) ''__proto__'' = map_of (own p) ''__proto__''"
    by (simp_all add: assign_field_def map_of_set_field)
  with Cons.IH[OF r, of "assign_field p e"] show ?case by simp
qed

lemma foldl_assign_proto_key:
  assumes "distinct (map fst es)" and "map_of es ''__proto__'' = Some v"
  shows "if map_of (own p) ''__proto__'' = None \<and> reaches_setter (proto p)
         then map_of (own (foldl assign_field p es)) ''__proto__'' = None
              \<and> proto (foldl assign_field p es) = set_prototype (proto p) v
         else map_of (own (foldl assign_field p es)) ''__proto__'' = Some v
              \<and> proto (foldl assign_field p es) = proto p"
proof -
  from assms(2) have "(''__proto__'', v) \<in> set es" by (rule map_of_SomeD)
  then obtain es1 es2 where es: "es = es1 @ (''__proto__'', v) # es2"
    by (auto dest: split_list)
  with assms(1) have n1: "''__proto__'' \<notin> fst ` set es1" and n2: "''__proto__'' \<notin> fst ` set es2"
    by auto
  let ?q = "foldl assign_field p es1"
  let ?r = "assign_field ?q (''__proto__'', v)"
  have q: "proto ?q = proto p" "map_of (own ?q) ''__proto__'' = map_of (own p) ''__proto__''"
    using foldl_assign_other_keys[OF n1, of p] by simp_all
  have f: "foldl assign_field p es = foldl assign_field ?r es2"
    by (simp add: es)
  have r: "proto (foldl assign_field p es) = proto ?r"
    "map_of (own (foldl assign_field p es)) ''__proto__'' = map_of (own ?r) ''__proto__''"
    unfolding f using foldl_assign_other_keys[OF n2, of ?r] by simp_all
  show ?thesis
    unfolding r by (simp add: assign_field_def q map_of_set_field)
qed

lemma has_id_iff:
  "has_id id_param p =
     (\<exists>n. parseInt id_param = Some n \<and> get_property p ''id'' = Some (JNum (Num n)))"
  by (auto simp: has_id_def strict_equals_def split: option.splits json.splits number.splits)

text \<open>
  Claim C7 as stated fails for the key \<^verbatim>\<open>__proto__\<close>: \<^verbatim>\<open>Object.assign\<close> assigns, and on a
  record without a field of that name the assignment goes to the accessor inherited
  from \<^verbatim>\<open>Object.prototype\<close>. The patch holds 5 under that key, and the record that comes
  back is the old one, with no field of that name.
\<close>

theorem proto_key_counterexample:
  "map_of [(''__proto__'', JNum (Num 5))] ''__proto__'' = Some (JNum (Num 5))
   \<and> fst (put_pokemons (writeFileSync [bulbasaur]) ''1'' (JObj [(''__proto__'', JNum (Num 5))])) =
       \<lparr>status = 200, body = Record bulbasaur\<rparr>
   \<and> map_of (own bulbasaur) ''__proto__'' = None"
  by code_simp

text \<open>
  Claim C7, amended. Let the id parameter be one that \<^verbatim>\<open>parseInt\<close> reads exactly (no
  number, or one of magnitude at most \<open>2^53\<close>), and let the patch be an object, whose
  keys are distinct as those of a parsed body are. A record has the id when \<^verbatim>\<open>p.id\<close> is
  the number that \<^verbatim>\<open>parseInt\<close> reads from the parameter. When no record has the id, the
  update answers 404 and changes nothing. Otherwise the first record with the id is
  merged with the patch: every key of the patch other than \<^verbatim>\<open>__proto__\<close> becomes or
  stays an own field with the patch's value, the id included, and every other own
  field keeps its value. The key \<^verbatim>\<open>__proto__\<close> of the patch is written as an own field
  only where the record already has an own field of that name or its prototype chain
  does not reach the accessor of \<^verbatim>\<open>Object.prototype\<close>; elsewhere it creates no field,
  and its value becomes the prototype of the record if it is an object, an array or
  \<^verbatim>\<open>null\<close>, so that the record then reads through it the properties it does not own.
  Without that key the prototype stays. The other records and the length of the store
  are unchanged; the store is written to the file and the merged record is returned
  with status 200.
\<close>

theorem update_merges_patch:
  assumes "exact_id_param id_param" and "distinct (map fst kvs)"
  shows "(findIndex (has_id id_param) (pokemons st) = None) =
      (\<forall>p \<in> set (pokemons st). \<not> has_id id_param p)
   \<and> (findIndex (has_id id_param) (pokemons st) = None \<longrightarrow>
        put_pokemons st id_param (JObj kvs) =
          (\<lparr>status = 404, body = Message not_found_message\<rparr>, st))
   \<and> (findIndex (has_id id_param) (pokemons st) = Some i \<longrightarrow>
        i < length (pokemons st) \<and> has_id id_param (pokemons st ! i)
        \<and> (\<forall>j < i. \<not> has_id id_param (pokemons st ! j))
        \<and> (let p = pokemons st ! i; merged = object_assign p (JObj kvs)
           in put_pokemons st id_param (JObj kvs) =
                (\<lparr>status = 200, body = Record merged\<rparr>,
                 \<lparr>pokemons = (pokemons st)[i := merged],
                  data_file =
                    stringify (JArr (map (\<lambda>p. JObj (own p)) ((pokemons st)[i := merged])))\<rparr>)
              \<and> (\<forall>k. k \<noteq> ''__proto__'' \<longrightarrow>
                    map_of (own merged) k =
                      (case map_of kvs k of Some v \<Rightarrow> Some v | None \<Rightarrow> map_of (own p) k))
              \<and> (case map_of kvs ''__proto__'' of
                    None \<Rightarrow>
                      map_of (own merged) ''__proto__'' = map_of (own p) ''__proto__''
                      \<and> proto merged = proto p
                  | Some v \<Rightarrow>
                      if map_of (own p) ''__proto__'' = None \<and> reaches_setter (proto p)
                      then map_of (own merged) ''__proto__'' = None
                           \<and> proto merged = set_prototype (proto p) v
                      else map_of (own merged) ''__proto__'' = Some v
                           \<and> proto merged = proto p)
              \<and> length ((pokemons st)[i := merged]) = length (pokemons st)
              \<and> (\<forall>j < length (pokemons st). j \<noteq> i \<longrightarrow>
                    (pokemons st)[i := merged] ! j = pokemons st ! j)))
   \<and> (\<forall>p. has_id id_param p =
         (\<exists>n. parseInt id_param = Some n \<and> \<bar>n\<bar> \<le> 2 ^ 53
              \<and> get_property p ''id'' = Some (JNum (Num n))))"
proof (intro conjI impI)
  show "(findIndex (has_id id_param) (pokemons st) = None) =
      (\<forall>p \<in> set (pokemons st). \<not> has_id id_param p)"
    by (rule findIndex_None)
next
  assume "findIndex (has_id id_param) (pokemons st) = None"
  then show "put_pokemons st id_param (JObj kvs) =
          (\<lparr>status = 404, body = Message not_found_message\<rparr>, st)"
    by (simp add: put_pokemons_def)
next
  assume i: "findIndex (has_id id_param) (pokemons st) = Some i"
  from findIndex_Some[OF i]
  show "i < length (pokemons st)" "has_id id_param (pokemons st ! i)"
    "\<forall>j < i. \<not> has_id id_param (pokemons st ! j)"
    by simp_all
  let ?p = "pokemons st ! i"
  let ?m = "object_assign ?p (JObj kvs)"
  have m: "?m = foldl assign_field ?p kvs"
    by (simp add: object_assign_def own_entries_def)
  have a: "put_pokemons st id_param (JObj kvs) =
                (\<lparr>status = 200, body = Record ?m\<rparr>,
                 \<lparr>pokemons = (pokemons st)[i := ?m],
                  data_file =
                    stringify (JArr (map (\<lambda>p. JObj (own p)) ((pokemons st)[i := ?m])))\<rparr>)"
    using i by (simp add: put_pokemons_def Let_def writeFileSync_def)
  have b: "\<forall>k. k \<noteq> ''__proto__'' \<longrightarrow>
                    map_of (own ?m) k =
                      (case map_of kvs k of Some v \<Rightarrow> Some v | None \<Rightarrow> map_of (own ?p) k)"
    unfolding m using assms(2) by (simp add: own_foldl_assign map_of_rev_distinct)
  have c: "case map_of kvs ''__proto__'' of
                    None \<Rightarrow>
                      map_of (own ?m) ''__proto__'' = map_of (own ?p) ''__proto__''
                      \<and> proto ?m = proto ?p
                  | Some v \<Rightarrow>
                      if map_of (own ?p) ''__proto__'' = None \<and> reaches_setter (proto ?p)
                      then map_of (own ?m) ''__proto__'' = None
                           \<and> proto ?m = set_prototype (proto ?p) v
                      else map_of (own ?m) ''__proto__'' = Some v
                           \<and> proto ?m = proto ?p"
  proof (cases "map_of kvs ''__proto__''")
    case None
    then have "''__proto__'' \<notin> fst ` set kvs" by (simp add: map_of_eq_None_iff)
    from foldl_assign_other_keys[OF this, of ?p] None show ?thesis
      unfolding m by simp
  next
    case (Some v)
    from foldl_assign_proto_key[OF assms(2) Some, of ?p] Some show ?thesis
      unfolding m by simp
  qed
  have d: "length ((pokemons st)[i := ?m]) = length (pokemons st)
              \<and> (\<forall>j < length (pokemons st). j \<noteq> i \<longrightarrow>
                    (pokemons st)[i := ?m] ! j = pokemons st ! j)"
    by simp
  from a b c d
  show "let p = pokemons st ! i; merged = object_assign p (JObj kvs)
           in put_pokemons st id_param (JObj kvs) =
                (\<lparr>status = 200, body = Record merged\<rparr>,
                 \<lparr>pokemons = (pokemons st)[i := merged],
                  data_file =
                    stringify (JArr (map (\<lambda>p. JObj (own p)) ((pokemons st)[i := merged])))\<rparr>)
              \<and> (\<forall>k. k \<noteq> ''__proto__'' \<longrightarrow>
                    map_of (own merged) k =
                      (case map_of kvs k of Some v \<Rightarrow> Some v | None \<Rightarrow> map_of (own p) k))
              \<and> (case map_of kvs ''__proto__'' of
                    None \<Rightarrow>
                      map_of (own merged) ''__proto__'' = map_of (own p) ''__proto__''
                      \<and> proto merged = proto p
                  | Some v \<Rightarrow>
                      if map_of (own p) ''__proto__'' = None \<and> reaches_setter (proto p)
                      then map_of (own merged) ''__proto__'' = None
                           \<and> proto merged = set_prototype (proto p) v
                      else map_of (own merged) ''__proto__'' = Some v
                           \<and> proto merged = proto p)
              \<and> length ((pokemons st)[i := merged]) = length (pokemons st)
              \<and> (\<forall>j < length (pokemons st). j \<noteq> i \<longrightarrow>
                    (pokemons st)[i := merged] ! j = pokemons st ! j)"
    unfolding Let_def by blast
next
  show "\<forall>p. has_id id_param p =
         (\<exists>n. parseInt id_param = Some n \<and> \<bar>n\<bar> \<le> 2 ^ 53
              \<and> get_property p ''id'' = Some (JNum (Num n)))"
    using assms(1) by (auto simp: has_id_iff exact_id_param_def)
qed

theorem update_merges_patch_witness:
  "exact_id_param ''25'' \<and> exact_id_param ''26'' \<and> distinct (map fst sparky)
   \<and> put_pokemons (writeFileSync [bulbasaur, pikachu]) ''25'' (JObj sparky) =
     (\<lparr>status = 200, body = Record pikachu_sparky\<rparr>, writeFileSync [bulbasaur, pikachu_sparky])
   \<and> put_pokemons (writeFileSync [bulbasaur, pikachu]) ''26'' (JObj sparky) =
     (\<lparr>status = 404, body = Message not_found_message\<rparr>, writeFileSync [bulbasaur, pikachu])"
proof -
  let ?st = "writeFileSync [bulbasaur, pikachu]"
  have e: "exact_id_param ''25''" "exact_id_param ''26''" by code_simp+
  have k: "distinct (map fst sparky)" by code_simp
  have f: "findIndex (has_id ''25'') (pokemons ?st) = Some 1" by code_simp
  have g: "findIndex (has_id ''26'') (pokemons ?st) = None" by code_simp
  have m: "object_assign (pokemons ?st ! 1) (JObj sparky) = pikachu_sparky" by code_simp
  have u: "\<lparr>pokemons = (pokemons ?st)[1 := pikachu_sparky],
           data_file = stringify (JArr (map (\<lambda>p. JObj (own p))
                                          ((pokemons ?st)[1 := pikachu_sparky])))\<rparr> =
         writeFileSync [bulbasaur, pikachu_sparky]"
    by (simp add: writeFileSync_def)
  from update_merges_patch[OF e(1) k, of ?st 1] f
  have "let p = pokemons ?st ! 1; merged = object_assign p (JObj sparky)
           in put_pokemons ?st ''25'' (JObj sparky) =
                (\<lparr>status = 200, body = Record merged\<rparr>,
                 \<lparr>pokemons = (pokemons ?st)[1 := merged],
                  data_file = stringify (JArr (map (\<lambda>p. JObj (own p))
                                                 ((pokemons ?st)[1 := merged])))\<rparr>)"
    by (simp add: Let_def)
  then have a: "put_pokemons ?st ''25'' (JObj sparky) =
     (\<lparr>status = 200, body = Record pikachu_sparky\<rparr>, writeFileSync [bulbasaur, pikachu_sparky])"
    unfolding Let_def m u .
  from update_merges_patch[OF e(2) k, of ?st 0] g
  have b: "put_pokemons ?st ''26'' (JObj sparky) =
     (\<lparr>status = 404, body = Message not_found_message\<rparr>, ?st)"
    by simp
  from a b e k show ?thesis by simp
qed

section \<open>Deleting\<close>

text \<open>
  Claim C8 as stated fails in its last part: the body of the answer is not the removed
  record but an object \<^verbatim>\<open>{message, pokemon}\<close> that holds it under \<open>pokemon\<close>.
\<close>

theorem delete_body_counterexample:
  "fst (delete_pokemons (writeFileSync [pikachu]) ''25'') =
     \<lparr>status = 200, body = Deleted deleted_message pikachu\<rparr>
   \<and> body (fst (delete_pokemons (writeFileSync [pikachu]) ''25'')) \<noteq> Record pikachu"
  by code_simp

text \<open>
  Claim C8, amended. Let the id parameter be one that \<^verbatim>\<open>parseInt\<close> reads exactly: no
  number, or one of magnitude at most \<open>2^53\<close>. A record has the id when \<^verbatim>\<open>p.id\<close> is the
  number that \<^verbatim>\<open>parseInt\<close> reads from the parameter. When no record has the id, the
  deletion answers 404 and changes nothing. Otherwise the first record with the id is
  taken out of the store, the records before and after it stay in their order, the
  store is written to the file, and the answer, with status 200, is an object that
  holds a message and, under \<open>pokemon\<close>, the removed record.
\<close>

theorem delete_removes_first_match:
  assumes "exact_id_param id_param"
  shows "(findIndex (has_id id_param) (pokemons st) = None) =
      (\<forall>p \<in> set (pokemons st). \<not> has_id id_param p)
   \<and> (findIndex (has_id id_param) (pokemons st) = None \<longrightarrow>
        delete_pokemons st id_param =
          (\<lparr>status = 404, body = Message not_found_message\<rparr>, st))
   \<and> (findIndex (has_id id_param) (pokemons st) = Some i \<longrightarrow>
        i < length (pokemons st) \<and> has_id id_param (pokemons st ! i)
        \<and> (\<forall>j < i. \<not> has_id id_param (pokemons st ! j))
        \<and> pokemons st = take i (pokemons st) @ (pokemons st ! i) # drop (Suc i) (pokemons st)
        \<and> delete_pokemons st id_param =
            (\<lparr>status = 200, body = Deleted deleted_message (pokemons st ! i)\<rparr>,
             \<lparr>pokemons = take i (pokemons st) @ drop (Suc i) (pokemons st),
              data_file = stringify (JArr (map (\<lambda>p. JObj (own p))
                (take i (pokemons st) @ drop (Suc i) (pokemons st))))\<rparr>))
   \<and> (\<forall>p. has_id id_param p =
         (\<exists>n. parseInt id_param = Some n \<and> \<bar>n\<bar> \<le> 2 ^ 53
              \<and> get_property p ''id'' = Some (JNum (Num n))))"
proof (intro conjI impI)
  show "(findIndex (has_id id_param) (pokemons st) = None) =
      (\<forall>p \<in> set (pokemons st). \<not> has_id id_param p)"
    by (rule findIndex_None)
next
  assume "findIndex (has_id id_param) (pokemons st) = None"
  then show "delete_pokemons st id_param =
          (\<lparr>status = 404, body = Message not_found_message\<rparr>, st)"
    by (simp add: delete_pokemons_def)
next
  assume i: "findIndex (has_id id_param) (pokemons st) = Some i"
  from findIndex_Some[OF i]
  show len: "i < length (pokemons st)" and "has_id id_param (pokemons st ! i)"
    and "\<forall>j < i. \<not> has_id id_param (pokemons st ! j)"
    by simp_all
  from len show "pokemons st = take i (pokemons st) @ (pokemons st ! i) # drop (Suc i) (pokemons st)"
    by (rule id_take_nth_drop)
  show "delete_pokemons st id_param =
            (\<lparr>status = 200, body = Deleted deleted_message (pokemons st ! i)\<rparr>,
             \<lparr>pokemons = take i (pokemons st) @ drop (Suc i) (pokemons st),
              data_file = stringify (JArr (map (\<lambda>p. JObj (own p))
                (take i (pokemons st) @ drop (Suc i) (pokemons st))))\<rparr>)"
    using i by (simp add: delete_pokemons_def Let_def writeFileSync_def)
next
  show "\<forall>p. has_id id_param p =
         (\<exists>n. parseInt id_param = Some n \<and> \<bar>n\<bar> \<le> 2 ^ 53
              \<and> get_property p ''id'' = Some (JNum (Num n)))"
    using assms by (auto simp: has_id_iff exact_id_param_def)
qed

theorem delete_removes_first_match_witness:
  "exact_id_param ''1'' \<and> exact_id_param ''7''
   \<and> delete_pokemons (writeFileSync [bulbasaur, pikachu]) ''1'' =
     (\<lparr>status = 200, body = Deleted deleted_message bulbasaur\<rparr>, writeFileSync [pikachu])
   \<and> delete_pokemons (writeFileSync [bulbasaur, pikachu]) ''7'' =
     (\<lparr>status = 404, body = Message not_found_message\<rparr>, writeFileSync [bulbasaur, pikachu])"
proof -
  let ?st = "writeFileSync [bulbasaur, pikachu]"
  have e: "exact_id_param ''1''" "exact_id_param ''7''" by code_simp+
  have f: "findIndex (has_id ''1'') (pokemons ?st) = Some 0" by code_simp
  have g: "findIndex (has_id ''7'') (pokemons ?st) = None" by code_simp
  have p: "pokemons ?st = [bulbasaur, pikachu]" by (simp add: writeFileSync_def)
  from delete_removes_first_match[OF e(1), of ?st 0] f
  have a: "delete_pokemons ?st ''1'' =
     (\<lparr>status = 200, body = Deleted deleted_message bulbasaur\<rparr>, writeFileSync [pikachu])"
    unfolding p by (simp add: writeFileSync_def)
  from delete_removes_first_match[OF e(2), of ?st 0] g
  have b: "delete_pokemons ?st ''7'' =
     (\<lparr>status = 404, body = Message not_found_message\<rparr>, ?st)"
    by simp
  from a b e show ?thesis by simp
qed

section \<open>Persistence\<close>

lemma stringify_finite: "finite_json v \<Longrightarrow> stringify v = v"
proof (induction v rule: stringify.induct)
  case (3 vs)
  then have "map stringify vs = map id vs"
    by (intro map_cong) (auto simp: list_all_iff)
  then show ?case by simp
next
  case (4 kvs)
  then have "map (\<lambda>(k, v). (k, stringify v)) kvs = map id kvs"
    by (intro map_cong) (auto simp: list_all_iff)
  then show ?case by simp
qed simp_all

lemma stringify_fixed: "stringify v = v \<Longrightarrow> finite_json v"
proof (induction v rule: stringify.induct)
  case (3 vs)
  from "3.prems" have "map stringify vs = map id vs" by simp
  then have "\<forall>v \<in> set vs. stringify v = v" by (simp only: map_eq_conv id_apply)
  with "3.IH" show ?case by (simp add: list_all_iff)
next
  case (4 kvs)
  from "4.prems" have "map (\<lambda>(k, v). (k, stringify v)) kvs = map id kvs" by simp
  then have "\<forall>kv \<in> set kvs. (\<lambda>(k, v). (k, stringify v)) kv = kv"
    by (simp only: map_eq_conv id_apply)
  then have "\<forall>kv \<in> set kvs. stringify (snd kv) = snd kv" by (auto simp: case_prod_beta prod_eq_iff)
  with "4.IH" show ?case by (auto simp: list_all_iff)
qed simp_all

lemma finite_object: "finite_json (JObj p) = (\<forall>kv \<in> set p. finite_json (snd kv))"
  by (simp add: list_all_iff)

lemma finite_store:
  "finite_json (JArr (map (\<lambda>p. JObj (own p)) ps)) = (\<forall>p \<in> set ps. finite_json (JObj (own p)))"
  by (simp add: list_all_iff)

lemma storable_iff:
  "storable ps = (\<forall>p \<in> set ps. finite_json (JObj (own p)) \<and> proto p = ObjectPrototype)"
  unfolding storable_def by (simp only: list_all_iff)

lemma set_own_assign_field: "set (own (assign_field p e)) \<subseteq> insert e (set (own p))"
  using set_set_field[of "fst e" "snd e" "own p"] by (auto simp: assign_field_def)

lemma set_own_foldl_assign: "set (own (foldl assign_field p es)) \<subseteq> set es \<union> set (own p)"
proof (induction es arbitrary: p)
  case Nil
  then show ?case by simp
next
  case (Cons e es)
  have "set (own (foldl assign_field (assign_field p e) es))
      \<subseteq> set es \<union> set (own (assign_field p e))"
    by (rule Cons.IH)
  also have "\<dots> \<subseteq> set es \<union> insert e (set (own p))"
    using set_own_assign_field[of p e] by blast
  finally show ?case by auto
qed

lemma finite_own_entries:
  assumes "finite_json patch"
  shows "\<forall>kv \<in> set (own_entries patch). finite_json (snd kv)"
proof (cases patch)
  case (JArr vs)
  with assms have "\<forall>v \<in> set vs. finite_json v" by (simp add: list_all_iff)
  with JArr show ?thesis
    by (auto simp: own_entries_def dest: set_zip_rightD)
next
  case (JStr s)
  then show ?thesis
    by (auto simp: own_entries_def dest!: set_zip_rightD)
next
  case (JObj kvs)
  with assms show ?thesis by (simp add: own_entries_def list_all_iff)
qed (simp_all add: own_entries_def)

lemma show_nat_not_proto: "show_nat n \<noteq> ''__proto__''"
proof
  assume "show_nat n = ''__proto__''"
  then have "CHR ''_'' \<in> set (show_nat n)" by simp
  then obtain d where d: "d < 10" "CHR ''_'' = digit_char d"
    using show_nat_digits by blast
  from d(1) have "(of_char (digit_char d) :: nat) = 48 + d" by (rule of_char_digit_char)
  with d show False by (simp flip: d(2))
qed

lemma zip_show_nat_keys: "''__proto__'' \<notin> fst ` set (zip (map show_nat ns) vs)"
proof
  assume "''__proto__'' \<in> fst ` set (zip (map show_nat ns) vs)"
  then obtain kv where kv: "''__proto__'' = fst kv" "kv \<in> set (zip (map show_nat ns) vs)"
    by (rule imageE)
  then have "(''__proto__'', snd kv) \<in> set (zip (map show_nat ns) vs)"
    by (cases kv) auto
  then have "''__proto__'' \<in> set (map show_nat ns)" by (rule set_zip_leftD)
  then obtain n where "show_nat n = ''__proto__''" by (auto simp only: set_map)
  then show False using show_nat_not_proto by blast
qed

lemma own_entries_keys:
  assumes "no_proto_key patch"
  shows "''__proto__'' \<notin> fst ` set (own_entries patch)"
proof (cases patch)
  case (JArr vs)
  show ?thesis
    unfolding JArr own_entries_def json.case by (rule zip_show_nat_keys)
next
  case (JStr s)
  show ?thesis
    unfolding JStr own_entries_def json.case by (rule zip_show_nat_keys)
next
  case (JObj kvs)
  with assms show ?thesis
    by (simp add: own_entries_def no_proto_key_def map_of_eq_None_iff)
qed (simp_all add: own_entries_def)

lemma storable_object_assign:
  assumes "finite_json patch" and "no_proto_key patch"
    and "finite_json (JObj (own p))" and "proto p = ObjectPrototype"
  shows "finite_json (JObj (own (object_assign p patch)))
     \<and> proto (object_assign p patch) = ObjectPrototype"
proof
  show "finite_json (JObj (own (object_assign p patch)))"
    unfolding finite_object
  proof
    fix kv assume "kv \<in> set (own (object_assign p patch))"
    then have "kv \<in> set (own_entries patch) \<or> kv \<in> set (own p)"
      unfolding object_assign_def using set_own_foldl_assign by fastforce
    then show "finite_json (snd kv)"
      using finite_own_entries[OF assms(1)] assms(3) unfolding finite_object by auto
  qed
  show "proto (object_assign p patch) = ObjectPrototype"
    unfolding object_assign_def
    using foldl_assign_other_keys[OF own_entries_keys[OF assms(2)], of p] assms(4) by simp
qed

lemma pokemons_writeFileSync: "pokemons (writeFileSync ps) = ps"
  by (simp add: writeFileSync_def)

lemma data_file_writeFileSync:
  "data_file (writeFileSync ps) =
     stringify (JArr (map (\<lambda>p. JObj (own p)) (pokemons (writeFileSync ps))))"
  by (simp only: writeFileSync_def server.simps)

lemma persisted_writeFileSync: "persisted (writeFileSync ps) = storable ps"
proof
  assume a: "persisted (writeFileSync ps)"
  have df: "data_file (writeFileSync ps) = stringify (JArr (map (\<lambda>p. JObj (own p)) ps))"
    by (simp only: writeFileSync_def server.simps)
  from a have "data_file (writeFileSync ps) =
      JArr (map (\<lambda>p. JObj (own p)) (pokemons (writeFileSync ps)))"
    and l: "list_all (\<lambda>p. proto p = ObjectPrototype) (pokemons (writeFileSync ps))"
    unfolding persisted_def by blast+
  then have "stringify (JArr (map (\<lambda>p. JObj (own p)) ps)) = JArr (map (\<lambda>p. JObj (own p)) ps)"
    unfolding df pokemons_writeFileSync by blast
  then have "finite_json (JArr (map (\<lambda>p. JObj (own p)) ps))" by (rule stringify_fixed)
  then have "\<forall>p \<in> set ps. finite_json (JObj (own p))" unfolding finite_store .
  moreover from l have "\<forall>p \<in> set ps. proto p = ObjectPrototype"
    unfolding pokemons_writeFileSync list_all_iff .
  ultimately show "storable ps" unfolding storable_iff by blast
next
  assume "storable ps"
  then have f: "\<forall>p \<in> set ps. finite_json (JObj (own p))"
    and p: "\<forall>p \<in> set ps. proto p = ObjectPrototype"
    unfolding storable_iff by blast+
  from f have "finite_json (JArr (map (\<lambda>p. JObj (own p)) ps))" unfolding finite_store .
  then have "stringify (JArr (map (\<lambda>p. JObj (own p)) ps)) = JArr (map (\<lambda>p. JObj (own p)) ps)"
    by (rule stringify_finite)
  then have "data_file (writeFileSync ps) =
      JArr (map (\<lambda>p. JObj (own p)) (pokemons (writeFileSync ps)))"
    unfolding pokemons_writeFileSync by (simp only: writeFileSync_def server.simps)
  moreover from p have "list_all (\<lambda>p. proto p = ObjectPrototype) (pokemons (writeFileSync ps))"
    unfolding pokemons_writeFileSync list_all_iff .
  ultimately show "persisted (writeFileSync ps)"
    unfolding persisted_def by blast
qed

lemma post_success:
  assumes "post_pokemons coerce st newPokemon = (Inr r, st')" and "status r = 201"
  shows "\<exists>props n. newPokemon = JObj props \<and> new_id coerce (pokemons st) = Inr n
           \<and> st' = writeFileSync (pokemons st @ [plain (set_field ''id'' (JNum n) props)])"
  using assms
  by (cases newPokemon) (auto simp: post_pokemons_def Let_def split: if_splits sum.splits)

lemma put_success:
  assumes "put_pokemons st id_param patch = (r, st')" and "status r = 200"
  shows "\<exists>i. findIndex (has_id id_param) (pokemons st) = Some i
           \<and> st' = writeFileSync ((pokemons st)[i := object_assign (pokemons st ! i) patch])"
  using assms by (auto simp: put_pokemons_def Let_def split: option.splits)

lemma delete_success:
  assumes "delete_pokemons st id_param = (r, st')" and "status r = 200"
  shows "\<exists>i. findIndex (has_id id_param) (pokemons st) = Some i
           \<and> st' = writeFileSync (take i (pokemons st) @ drop (Suc i) (pokemons st))"
  using assms by (auto simp: delete_pokemons_def Let_def split: option.splits)

lemma post_persists:
  assumes "post_pokemons coerce st newPokemon = (Inr r, st')" and "status r = 201"
    and "storable (pokemons st)" and "finite_json newPokemon"
    and "\<exists>i. new_id coerce (pokemons st) = Inr (Num i)"
  shows "persisted st' \<and> storable (pokemons st')"
proof -
  obtain props n where b: "newPokemon = JObj props" and n: "new_id coerce (pokemons st) = Inr n"
    and s: "st' = writeFileSync (pokemons st @ [plain (set_field ''id'' (JNum n) props)])"
    using post_success[OF assms(1,2)] by blast
  from n assms(5) have fn: "finite_json (JNum n)" by auto
  have "finite_json (JObj (set_field ''id'' (JNum n) props))"
    unfolding finite_object
  proof
    fix kv assume "kv \<in> set (set_field ''id'' (JNum n) props)"
    then have "kv = (''id'', JNum n) \<or> kv \<in> set props" using set_set_field by fastforce
    then show "finite_json (snd kv)" using fn assms(4) unfolding b finite_object by auto
  qed
  then have "storable (pokemons st @ [plain (set_field ''id'' (JNum n) props)])"
    using assms(3) unfolding storable_iff by (auto simp: plain_def)
  then show ?thesis
    unfolding s pokemons_writeFileSync persisted_writeFileSync by simp
qed

lemma put_persists:
  assumes "put_pokemons st id_param patch = (r, st')" and "status r = 200"
    and "storable (pokemons st)" and "finite_json patch" and "no_proto_key patch"
  shows "persisted st' \<and> storable (pokemons st')"
proof -
  obtain i where i: "findIndex (has_id id_param) (pokemons st) = Some i"
    and s: "st' = writeFileSync ((pokemons st)[i := object_assign (pokemons st ! i) patch])"
    using put_success[OF assms(1,2)] by blast
  have "i < length (pokemons st)" using findIndex_Some[OF i] by simp
  then have "finite_json (JObj (own (pokemons st ! i)))" "proto (pokemons st ! i) = ObjectPrototype"
    using assms(3) unfolding storable_iff by simp_all
  from storable_object_assign[OF assms(4,5) this]
  have "storable ((pokemons st)[i := object_assign (pokemons st ! i) patch])"
    using assms(3) unfolding storable_iff
    by (metis insert_iff set_update_subset_insert subsetD)
  then show ?thesis
    unfolding s pokemons_writeFileSync persisted_writeFileSync by simp
qed

lemma delete_persists:
  assumes "delete_pokemons st id_param = (r, st')" and "status r = 200"
    and "storable (pokemons st)"
  shows "persisted st' \<and> storable (pokemons st')"
proof -
  obtain i where s: "st' = writeFileSync (take i (pokemons st) @ drop (Suc i) (pokemons st))"
    using delete_success[OF assms(1,2)] by blast
  have "storable (take i (pokemons st) @ drop (Suc i) (pokemons st))"
    using assms(3) unfolding storable_iff
    by (auto dest: in_set_takeD in_set_dropD)
  then show ?thesis
    unfolding s pokemons_writeFileSync persisted_writeFileSync by simp
qed

text \<open>
  Claim C9 as stated fails where the store holds \<^verbatim>\<open>NaN\<close>, which \<^verbatim>\<open>JSON.stringify\<close> writes as
  \<^verbatim>\<open>null\<close>. Such a store is reached through the interface: an update sets the id of a
  record to the string \<^verbatim>\<open>abc\<close>; the next creation computes \<^verbatim>\<open>Math.max("abc") + 1\<close>, which
  is \<^verbatim>\<open>NaN\<close>, stores it as the id of the new record and writes \<^verbatim>\<open>null\<close> to the file.
\<close>

theorem nan_id_counterexample:
  "status (fst (put_pokemons (writeFileSync [bulbasaur]) ''1'' (JObj [(''id'', JStr ''abc'')]))) = 200
   \<and> fst (post_pokemons coerce_abc
            (snd (put_pokemons (writeFileSync [bulbasaur]) ''1'' (JObj [(''id'', JStr ''abc'')])))
            (JObj eevee)) =
       Inr \<lparr>status = 201, body = Record (plain (eevee @ [(''id'', JNum NaN)]))\<rparr>
   \<and> \<not> persisted (snd (post_pokemons coerce_abc
            (snd (put_pokemons (writeFileSync [bulbasaur]) ''1'' (JObj [(''id'', JStr ''abc'')])))
            (JObj eevee)))"
  by code_simp

text \<open>
  Claim C9, amended. After every successful creation, update or deletion the file holds
  what \<^verbatim>\<open>JSON.stringify\<close> makes of the store at that moment: the own fields of the records,
  with \<^verbatim>\<open>null\<close> for every number that is \<^verbatim>\<open>NaN\<close> or infinite, and nothing of a prototype.
  Parsed again it equals the store exactly when every number in the own fields of the
  store is finite and every record has the prototype that parsing gives. A store of
  that kind stays of that kind, and so the file parsed again equals the store, after a
  deletion; after an update whose patch has finite numbers only and is not an object
  with the key \<^verbatim>\<open>__proto__\<close>; and after a creation whose payload has finite numbers only
  and whose new id is finite, which it is whenever \<^verbatim>\<open>p.id\<close> is, for every record, an
  integer of magnitude below \<open>2^53\<close>.
\<close>

theorem mutations_persist:
  "(post_pokemons coerce st newPokemon = (Inr r1, st1) \<and> status r1 = 201 \<longrightarrow>
       data_file st1 = stringify (JArr (map (\<lambda>p. JObj (own p)) (pokemons st1)))
       \<and> persisted st1 = storable (pokemons st1)
       \<and> (storable (pokemons st) \<and> finite_json newPokemon
            \<and> (\<exists>i. new_id coerce (pokemons st) = Inr (Num i)) \<longrightarrow>
          persisted st1 \<and> storable (pokemons st1)))
   \<and> (put_pokemons st id_param patch = (r2, st2) \<and> status r2 = 200 \<longrightarrow>
       data_file st2 = stringify (JArr (map (\<lambda>p. JObj (own p)) (pokemons st2)))
       \<and> persisted st2 = storable (pokemons st2)
       \<and> (storable (pokemons st) \<and> finite_json patch \<and> no_proto_key patch \<longrightarrow>
          persisted st2 \<and> storable (pokemons st2)))
   \<and> (delete_pokemons st id_param = (r3, st3) \<and> status r3 = 200 \<longrightarrow>
       data_file st3 = stringify (JArr (map (\<lambda>p. JObj (own p)) (pokemons st3)))
       \<and> persisted st3 = storable (pokemons st3)
       \<and> (storable (pokemons st) \<longrightarrow> persisted st3 \<and> storable (pokemons st3)))
   \<and> (map (\<lambda>p. get_property p ''id'') (pokemons st) = map (\<lambda>i. Some (JNum (Num i))) ids
        \<and> (\<forall>i \<in> set ids. \<bar>i\<bar> < 2 ^ 53) \<longrightarrow>
       (\<exists>i. new_id coerce (pokemons st) = Inr (Num i)))"
proof (intro conjI impI)
  assume a: "post_pokemons coerce st newPokemon = (Inr r1, st1) \<and> status r1 = 201"
  then obtain ps where w: "st1 = writeFileSync ps" using post_success by blast
  then show "data_file st1 = stringify (JArr (map (\<lambda>p. JObj (own p)) (pokemons st1)))"
    by (simp only: data_file_writeFileSync)
  from w show "persisted st1 = storable (pokemons st1)"
    by (simp only: persisted_writeFileSync pokemons_writeFileSync)
  assume "storable (pokemons st) \<and> finite_json newPokemon
            \<and> (\<exists>i. new_id coerce (pokemons st) = Inr (Num i))"
  with a have "persisted st1 \<and> storable (pokemons st1)"
    using post_persists by blast
  then show "persisted st1" and "storable (pokemons st1)" by blast+
next
  assume a: "put_pokemons st id_param patch = (r2, st2) \<and> status r2 = 200"
  then obtain ps where w: "st2 = writeFileSync ps" using put_success by blast
  then show "data_file st2 = stringify (JArr (map (\<lambda>p. JObj (own p)) (pokemons st2)))"
    by (simp only: data_file_writeFileSync)
  from w show "persisted st2 = storable (pokemons st2)"
    by (simp only: persisted_writeFileSync pokemons_writeFileSync)
  assume "storable (pokemons st) \<and> finite_json patch \<and> no_proto_key patch"
  with a have "persisted st2 \<and> storable (pokemons st2)"
    using put_persists by blast
  then show "persisted st2" and "storable (pokemons st2)" by blast+
next
  assume a: "delete_pokemons st id_param = (r3, st3) \<and> status r3 = 200"
  then obtain ps where w: "st3 = writeFileSync ps" using delete_success by blast
  then show "data_file st3 = stringify (JArr (map (\<lambda>p. JObj (own p)) (pokemons st3)))"
    by (simp only: data_file_writeFileSync)
  from w show "persisted st3 = storable (pokemons st3)"
    by (simp only: persisted_writeFileSync pokemons_writeFileSync)
  assume "storable (pokemons st)"
  with a have "persisted st3 \<and> storable (pokemons st3)"
    using delete_persists by blast
  then show "persisted st3" and "storable (pokemons st3)" by blast+
next
  assume "map (\<lambda>p. get_property p ''id'') (pokemons st) = map (\<lambda>i. Some (JNum (Num i))) ids
        \<and> (\<forall>i \<in> set ids. \<bar>i\<bar> < 2 ^ 53)"
  then show "\<exists>i. new_id coerce (pokemons st) = Inr (Num i)"
    by (simp add: new_id_numbers)
qed

text \<open>
  The evaluation below runs a creation, an update and a deletion that keep the file
  equal to the store, and then a creation whose payload holds \<^verbatim>\<open>Infinity\<close> and an update
  that replaces a prototype, after which it is not.
\<close>

theorem mutations_persist_witness:
  "fst (post_pokemons no_coercion (writeFileSync [bulbasaur]) (JObj eevee)) =
     Inr \<lparr>status = 201, body = Record (plain (eevee @ [(''id'', JNum (Num 2))]))\<rparr>
   \<and> persisted (snd (post_pokemons no_coercion (writeFileSync [bulbasaur]) (JObj eevee)))
   \<and> status (fst (put_pokemons (writeFileSync [bulbasaur, pikachu]) ''25'' (JObj sparky))) = 200
   \<and> persisted (snd (put_pokemons (writeFileSync [bulbasaur, pikachu]) ''25'' (JObj sparky)))
   \<and> status (fst (delete_pokemons (writeFileSync [bulbasaur, pikachu]) ''1'')) = 200
   \<and> persisted (snd (delete_pokemons (writeFileSync [bulbasaur, pikachu]) ''1''))
   \<and> fst (post_pokemons no_coercion (writeFileSync [bulbasaur]) (JObj overflowing)) =
     Inr \<lparr>status = 201, body = Record (plain (overflowing @ [(''id'', JNum (Num 2))]))\<rparr>
   \<and> \<not> persisted (snd (post_pokemons no_coercion (writeFileSync [bulbasaur]) (JObj overflowing)))
   \<and> status (fst (put_pokemons (writeFileSync [nameless]) ''3'' (JObj lend_name))) = 200
   \<and> \<not> persisted (snd (put_pokemons (writeFileSync [nameless]) ''3'' (JObj lend_name)))"
proof -
  let ?s1 = "writeFileSync [bulbasaur]" and ?s2 = "writeFileSync [bulbasaur, pikachu]"
  let ?s3 = "writeFileSync [nameless]"
  have c: "fst (post_pokemons no_coercion ?s1 (JObj eevee)) =
     Inr \<lparr>status = 201, body = Record (plain (eevee @ [(''id'', JNum (Num 2))]))\<rparr>"
    by code_simp
  then have c': "post_pokemons no_coercion ?s1 (JObj eevee) =
     (Inr \<lparr>status = 201, body = Record (plain (eevee @ [(''id'', JNum (Num 2))]))\<rparr>,
      snd (post_pokemons no_coercion ?s1 (JObj eevee)))"
    by (simp add: prod_eq_iff)
  have u: "status (fst (put_pokemons ?s2 ''25'' (JObj sparky))) = 200" by code_simp
  have d: "status (fst (delete_pokemons ?s2 ''1'')) = 200" by code_simp
  have n1: "storable (pokemons ?s1)" by code_simp
  have n2: "storable (pokemons ?s2)" by code_simp
  have n3: "finite_json (JObj eevee)" "finite_json (JObj sparky)" "no_proto_key (JObj sparky)"
    by code_simp+
  have i: "map (\<lambda>p. get_property p ''id'') (pokemons ?s1) = map (\<lambda>i. Some (JNum (Num i))) [1]"
    by code_simp
  have b: "\<forall>i \<in> set [1]. \<bar>i\<bar> < (2::int) ^ 53" by simp
  have m: "\<exists>i. new_id no_coercion (pokemons ?s1) = Inr (Num i)"
    using mutations_persist[of no_coercion ?s1 _ _ _ _ _ _ _ _ _ "[1]"] i b by blast
  have p1: "persisted (snd (post_pokemons no_coercion ?s1 (JObj eevee)))"
    using mutations_persist[of no_coercion ?s1 "JObj eevee"
        "\<lparr>status = 201, body = Record (plain (eevee @ [(''id'', JNum (Num 2))]))\<rparr>"
        "snd (post_pokemons no_coercion ?s1 (JObj eevee))"] c' n1 n3 m
    by simp
  have p2: "persisted (snd (put_pokemons ?s2 ''25'' (JObj sparky)))"
    using mutations_persist[of _ ?s2 _ _ _ "''25''" "JObj sparky"
        "fst (put_pokemons ?s2 ''25'' (JObj sparky))"
        "snd (put_pokemons ?s2 ''25'' (JObj sparky))"] u n2 n3
    by simp
  have p3: "persisted (snd (delete_pokemons ?s2 ''1''))"
    using mutations_persist[of _ ?s2 _ _ _ "''1''" _ _ _ "fst (delete_pokemons ?s2 ''1'')"
        "snd (delete_pokemons ?s2 ''1'')"] d n2
    by simp
  have o: "fst (post_pokemons no_coercion ?s1 (JObj overflowing)) =
     Inr \<lparr>status = 201, body = Record (plain (overflowing @ [(''id'', JNum (Num 2))]))\<rparr>"
    by code_simp
  then have o': "post_pokemons no_coercion ?s1 (JObj overflowing) =
     (Inr \<lparr>status = 201, body = Record (plain (overflowing @ [(''id'', JNum (Num 2))]))\<rparr>,
      snd (post_pokemons no_coercion ?s1 (JObj overflowing)))"
    by (simp add: prod_eq_iff)
  have os: "\<not> storable (pokemons (snd (post_pokemons no_coercion ?s1 (JObj overflowing))))"
    by code_simp
  have p4: "\<not> persisted (snd (post_pokemons no_coercion ?s1 (JObj overflowing)))"
    using mutations_persist[of no_coercion ?s1 "JObj overflowing"
        "\<lparr>status = 201, body = Record (plain (overflowing @ [(''id'', JNum (Num 2))]))\<rparr>"
        "snd (post_pokemons no_coercion ?s1 (JObj overflowing))"] o' os
    by simp
  have l: "status (fst (put_pokemons ?s3 ''3'' (JObj lend_name))) = 200" by code_simp
  have ls: "\<not> storable (pokemons (snd (put_pokemons ?s3 ''3'' (JObj lend_name))))"
    by code_simp
  have p5: "\<not> persisted (snd (put_pokemons ?s3 ''3'' (JObj lend_name)))"
    using mutations_persist[of _ ?s3 _ _ _ "''3''" "JObj lend_name"
        "fst (put_pokemons ?s3 ''3'' (JObj lend_name))"
        "snd (put_pokemons ?s3 ''3'' (JObj lend_name))"] l ls
    by simp
  from c u d p1 p2 p3 o p4 l p5 show ?thesis by simp
qed

end
